theory Spec2Isabelle
  imports Complex_Main "HOL-Library.AList"
begin

section \<open>Data loading and augmentation pipelines (dataaug/data/data_preparation.py)\<close>

text \<open>
  A shallow embedding of \<^verbatim>\<open>data_preparation.py\<close>. Python exceptions are values of the
  type \<open>error\<close>; a function that may raise returns \<open>error + 'a\<close>. Objects built by
  library constructors (torchvision transforms and datasets, torch samplers and loaders)
  are recorded symbolically: the value says which constructor was called with which
  arguments. What the surrounding process decides (the distributed process group, the
  thread and device counts, the length of a dataset on disk, the random generator) is
  read from a record \<open>torch_env\<close>. Python floats are idealised as exact rationals.
  Names keep those of the source; a leading underscore is dropped (\<open>_build_datasets\<close>
  is \<open>build_datasets\<close>), and the fields of the three configuration objects carry the
  object's name as a prefix (\<^verbatim>\<open>cfg_data.size\<close> is \<open>data_size\<close>).
\<close>

subsection \<open>Errors and configuration values\<close>

datatype error =
    ValueError string
  | NameError string
  | AttributeError string
  | TypeError
  | AssertionError
  | IndexError
  | ProcessGroupError

datatype cfgval =
    VNone
  | VBool bool
  | VInt int
  | VNum rat
  | VStr string
  | VList "cfgval list"
  | VDict "(string \<times> cfgval) list"

text \<open>Argument unpacking \<^verbatim>\<open>*value\<close>: sequences give their elements, a string its
  characters, a mapping its keys; anything else is not iterable (TypeError).\<close>

fun unpack :: "cfgval \<Rightarrow> error + cfgval list" where
  "unpack (VList xs) = Inr xs"
| "unpack (VStr s) = Inr (map (\<lambda>c. VStr [c]) s)"
| "unpack (VDict kvs) = Inr (map (\<lambda>kv. VStr (fst kv)) kvs)"
| "unpack VNone = Inl TypeError"
| "unpack (VBool b) = Inl TypeError"
| "unpack (VInt i) = Inl TypeError"
| "unpack (VNum r) = Inl TypeError"

record cfg_data =
  data_name :: string
  data_path :: string
  data_split :: string
  data_mean :: "rat list option"
  data_std :: "rat list option"
  data_pixels :: int
  data_normalize :: bool
  data_augmentations_train :: "(string \<times> cfgval) list option"
  data_augmentations_val :: "(string \<times> cfgval) list option"
  data_extra_validation :: "string list"
  data_size :: int
  data_deterministic_subsets :: bool
  data_batch_size :: int
  data_caching :: bool
  data_db_name :: string

record cfg_impl =
  impl_threads :: int
  impl_pin_memory :: bool
  impl_persistent_workers :: bool
  impl_setup_dist :: bool

record cfg_hyp =
  hyp_shuffle :: bool
  hyp_sample_with_replacement :: bool

subsection \<open>Transforms\<close>

record aa_params =
  translate_const :: int
  img_mean :: "int list"
  translate_pct :: "rat option"

text \<open>
  \<open>rand_augment_transform\<close>, \<open>augment_and_mix_transform\<close>, \<open>auto_augment_transform\<close>
  (module \<^verbatim>\<open>auto_augment\<close>) and \<open>Cutout\<close> (module \<^verbatim>\<open>cutout\<close>) are called by this file but
  defined elsewhere; they appear as constructors carrying the arguments of the call.
\<close>

datatype transform =
    ToTensor
  | Normalize "rat list option" "rat list option"
  | ToRGB
  | Resize cfgval cfgval
  | Cutout "cfgval list" "rat list option"
  | rand_augment_transform string aa_params
  | augment_and_mix_transform string aa_params
  | auto_augment_transform string aa_params
  | AutoAugment string
  | RandAugment
  | Generic string "cfgval list"
  | Compose "transform list"

text \<open>\<^verbatim>\<open>getattr(transforms, key)\<close>: the library either has no attribute of that name, or
  has a constructor that accepts the arguments or raises.\<close>

type_synonym transforms_lib = "string \<Rightarrow> (cfgval list \<Rightarrow> error + transform) option"

text \<open>Python's \<^verbatim>\<open>int\<close> truncates towards zero; \<^verbatim>\<open>round\<close> rounds half to even.\<close>

definition py_int :: "rat \<Rightarrow> int" where
  "py_int x = (if 0 \<le> x then \<lfloor>x\<rfloor> else \<lceil>x\<rceil>)"

definition py_round :: "rat \<Rightarrow> int" where
  "py_round x =
     (let f = \<lfloor>x\<rfloor>; d = x - of_int f
      in if d < 1 / 2 then f
         else if 1 / 2 < d then f + 1
         else if even f then f else f + 1)"

definition startswith :: "string \<Rightarrow> string \<Rightarrow> bool" where
  "startswith s p = (take (length p) s = p)"

fun contains :: "string \<Rightarrow> string \<Rightarrow> bool" where
  "contains [] sub = (sub = [])"
| "contains (c # cs) sub = (startswith (c # cs) sub \<or> contains cs sub)"

text \<open>\<open>_get_autoaugment_timm\<close>. Both arguments with a default are given, as in the one
  call of the source; the assertion comes first, then the two parameters (iterating a
  mean of \<^verbatim>\<open>None\<close> is a TypeError), then the dispatch on the prefix of the policy string.\<close>

definition get_autoaugment_timm :: "cfgval \<Rightarrow> int \<Rightarrow> rat list option \<Rightarrow> error + transform" where
  "get_autoaugment_timm auto_augment img_size_min mean =
     (case auto_augment of
        VStr s \<Rightarrow>
          (case mean of
             None \<Rightarrow> Inl TypeError
           | Some m \<Rightarrow>
               (let aa = \<lparr> translate_const = py_int (of_int img_size_min * (45 / 100)),
                           img_mean = map (\<lambda>x. min 255 (py_round (255 * x))) m,
                           translate_pct = None \<rparr>
                in if startswith s ''rand'' then Inr (rand_augment_transform s aa)
                   else if startswith s ''augmix''
                   then Inr (augment_and_mix_transform s (aa\<lparr> translate_pct := Some (3 / 10) \<rparr>))
                   else Inr (auto_augment_transform s aa)))
      | _ \<Rightarrow> Inl AssertionError)"

text \<open>\<open>_get_autoaugment_torchvision\<close>.\<close>

definition get_autoaugment_torchvision :: "string \<Rightarrow> cfgval \<Rightarrow> error + transform" where
  "get_autoaugment_torchvision type auto_augment_policy =
     (case auto_augment_policy of
        VStr p \<Rightarrow>
          (if p \<in> set [''IMAGENET'', ''CIFAR10'', ''SVHN'']
           then (if contains type ''AutoAugment'' then Inr (AutoAugment p)
                 else if contains type ''RandAugment'' then Inr RandAugment
                 else Inl (ValueError ''Invalid torchvision auto augmentation.''))
           else Inl AssertionError)
      | _ \<Rightarrow> Inl AssertionError)"

text \<open>The body of the loop of \<open>_parse_cfg_dict\<close>: dispatch on the operation name.\<close>

definition resolve_entry :: "transforms_lib \<Rightarrow> cfg_data \<Rightarrow> string \<Rightarrow> cfgval \<Rightarrow> error + transform" where
  "resolve_entry lib cfg key v =
     (if key \<in> set [''RandAugment'', ''AutoAugment'', ''AugMix'']
      then get_autoaugment_timm v (data_pixels cfg) (data_mean cfg)
      else if key \<in> set [''tvRandAugment'', ''tvAutoAugment'']
      then get_autoaugment_torchvision key v
      else if key = ''ToRGB'' then Inr ToRGB
      else if key = ''Resize'' then Inr (Resize v v)
      else if key = ''Cutout''
      then (case unpack v of Inl e \<Rightarrow> Inl e | Inr args \<Rightarrow> Inr (Cutout args (data_mean cfg)))
      else (case lib key of
              None \<Rightarrow> Inl (AttributeError key)
            | Some ctor \<Rightarrow>
                (case unpack v of
                   Inl e \<Rightarrow> ctor [v]
                 | Inr args \<Rightarrow>
                     (case ctor args of Inl TypeError \<Rightarrow> ctor [v] | r \<Rightarrow> r))))"

fun parse_items :: "transforms_lib \<Rightarrow> cfg_data \<Rightarrow> (string \<times> cfgval) list \<Rightarrow> error + transform list" where
  "parse_items lib cfg [] = Inr []"
| "parse_items lib cfg (kv # rest) =
     (case resolve_entry lib cfg (fst kv) (snd kv) of
        Inl e \<Rightarrow> Inl e
      | Inr t \<Rightarrow>
          (case parse_items lib cfg rest of
             Inl e \<Rightarrow> Inl e
           | Inr ts \<Rightarrow> Inr (t # ts)))"

text \<open>\<open>_parse_cfg_dict\<close>: a value without \<^verbatim>\<open>keys\<close> (here \<open>None\<close>) gives the empty list.\<close>

definition parse_cfg_dict :: "transforms_lib \<Rightarrow> cfg_data \<Rightarrow> (string \<times> cfgval) list option \<Rightarrow> error + transform list" where
  "parse_cfg_dict lib cfg cfg_dict =
     (case cfg_dict of None \<Rightarrow> Inr [] | Some items \<Rightarrow> parse_items lib cfg items)"

text \<open>\<open>_parse_data_augmentations\<close>: the two lists, then the steps appended to both.\<close>

definition parse_data_augmentations :: "transforms_lib \<Rightarrow> cfg_data \<Rightarrow> bool \<Rightarrow> error + transform \<times> transform" where
  "parse_data_augmentations lib cfg PIL_only =
     (case parse_cfg_dict lib cfg (data_augmentations_train cfg) of
        Inl e \<Rightarrow> Inl e
      | Inr train_transforms \<Rightarrow>
          (case parse_cfg_dict lib cfg (data_augmentations_val cfg) of
             Inl e \<Rightarrow> Inl e
           | Inr valid_transforms \<Rightarrow>
               (let appended =
                      (if PIL_only then []
                       else ToTensor #
                            (if data_normalize cfg
                             then [Normalize (data_mean cfg) (data_std cfg)] else []))
                in Inr (Compose (train_transforms @ appended),
                        Compose (valid_transforms @ appended)))))"

subsection \<open>Datasets and their wrappers\<close>

datatype classes = Native string | RangeList nat

text \<open>
  A dataset object is either the result of a dataset constructor (class name, keyword
  arguments, and the two attributes this file reads and assigns: \<open>transform\<close> and
  \<open>classes\<close>), or one of the three wrappers. \<open>LMDBDataset\<close> and \<open>CachedDataset\<close>
  are defined in modules of their own (\<^verbatim>\<open>lmdb_datasets\<close>, \<^verbatim>\<open>cached_dataset\<close>); they are
  recorded with the arguments of the call. A constructor call is taken to return: the
  data is on disk or can be downloaded.
\<close>

datatype dataset =
    Opened string "(string \<times> cfgval) list" "transform option" classes
  | SubsetObj dataset "nat list" "transform option" classes
  | LMDBDataset dataset string string bool
  | CachedDataset dataset int bool

text \<open>Modelled from the spec: the modules of \<open>LMDBDataset\<close> and \<open>CachedDataset\<close> are
  missing; the two wrappers preserve the dataset-level metadata (transform, class list)
  of the dataset they decorate, and never change its length.\<close>

fun transform_of :: "dataset \<Rightarrow> transform option" where
  "transform_of (Opened c kw t cl) = t"
| "transform_of (SubsetObj d idx t cl) = t"
| "transform_of (LMDBDataset d db n cc) = transform_of d"
| "transform_of (CachedDataset d nw pm) = transform_of d"

fun classes_of :: "dataset \<Rightarrow> classes" where
  "classes_of (Opened c kw t cl) = cl"
| "classes_of (SubsetObj d idx t cl) = cl"
| "classes_of (LMDBDataset d db n cc) = classes_of d"
| "classes_of (CachedDataset d nw pm) = classes_of d"

fun len :: "(string \<Rightarrow> (string \<times> cfgval) list \<Rightarrow> nat) \<Rightarrow> dataset \<Rightarrow> nat" where
  "len dl (Opened c kw t cl) = dl c kw"
| "len dl (SubsetObj d idx t cl) = length idx"
| "len dl (LMDBDataset d db n cc) = len dl d"
| "len dl (CachedDataset d nw pm) = len dl d"

text \<open>\<open>Subset.__init__\<close>: the wrapped dataset, the indices, and the parent's current
  \<open>transform\<close> and \<open>classes\<close>.\<close>

definition Subset :: "dataset \<Rightarrow> nat list \<Rightarrow> dataset" where
  "Subset dataset indices = SubsetObj dataset indices (transform_of dataset) (classes_of dataset)"

fun set_transform :: "transform option \<Rightarrow> dataset \<Rightarrow> dataset" where
  "set_transform t (Opened c kw t0 cl) = Opened c kw t cl"
| "set_transform t (SubsetObj d idx t0 cl) = SubsetObj d idx t cl"
| "set_transform t d = d"

fun set_classes :: "classes \<Rightarrow> dataset \<Rightarrow> dataset" where
  "set_classes cl (Opened c kw t cl0) = Opened c kw t cl"
| "set_classes cl (SubsetObj d idx t cl0) = SubsetObj d idx t cl"
| "set_classes cl d = d"

subsection \<open>The process environment\<close>

text \<open>
  What the code reads from the process it runs in: the state of \<^verbatim>\<open>torch.distributed\<close>
  (whether a process group is initialised, this process's rank, the world size), the
  thread and device counts, \<^verbatim>\<open>os.path.expanduser\<close>, the length of an opened dataset, the
  dataset-valued global names of the module, the tensor computation of \<open>_get_meanstd\<close>
  (concatenation, mean and std per channel), the state of the default random generator,
  \<^verbatim>\<open>torch.randperm\<close> as a function of the length and the generator, and the constructors
  of \<^verbatim>\<open>torchvision.transforms\<close>. A generator is either a fresh one seeded by
  \<^verbatim>\<open>manual_seed\<close>, or the default generator in its current state. For a pass over a
  loader: what reading one item of an opened dataset does once the index is in range
  (the file access and the dataset's transform, which may raise), and the index a random
  sampler, or the shard of this process, yields at each position of the pass.
\<close>

datatype generator = manual_seed nat | default_generator nat

record torch_env =
  dist_is_initialized :: bool
  dist_get_rank :: nat
  dist_get_world_size :: nat
  get_num_threads :: int
  cuda_device_count :: int
  expanduser :: "string \<Rightarrow> string"
  disk_len :: "string \<Rightarrow> (string \<times> cfgval) list \<Rightarrow> nat"
  module_globals :: "string \<Rightarrow> dataset option"
  tensor_meanstd :: "dataset \<Rightarrow> rat list \<times> rat list"
  rng_state :: nat
  randperm :: "nat \<Rightarrow> generator \<Rightarrow> nat list"
  transforms :: transforms_lib
  read_item :: "dataset \<Rightarrow> nat \<Rightarrow> error option"
  random_index :: "nat \<Rightarrow> bool \<Rightarrow> nat \<Rightarrow> nat"
  shard_index :: "nat \<Rightarrow> bool \<Rightarrow> nat \<Rightarrow> nat"

text \<open>
  The names bound at module level in \<^verbatim>\<open>data_preparation.py\<close> are the imports (torch,
  torchvision, transforms, TinyImageNet, CINIC10, CIFAR10C, the three auto-augment
  functions, Cutout, os, contextlib, CachedDataset, warnings), the functions
  \<open>construct_dataloader\<close>, \<open>construct_subset_dataloader\<close>, \<open>_build_datasets\<close>,
  \<open>_get_meanstd\<close>, \<open>_get_autoaugment_timm\<close>, \<open>_get_autoaugment_torchvision\<close>,
  \<open>_parse_data_augmentations\<close>, \<open>main_process_first\<close> and the classes \<open>Subset\<close> and
  \<open>ToRGB\<close>. None of them is a dataset: the module binds no dataset-valued global.
\<close>

definition data_preparation_globals :: "string \<Rightarrow> dataset option" where
  "data_preparation_globals = (\<lambda>n. None)"

subsection \<open>Building the datasets\<close>

text \<open>\<open>_get_meanstd(dataset)\<close>: the body never reads its parameter; it reads the name
  \<^verbatim>\<open>trainset\<close>, which is not local and is looked up among the module's globals.\<close>

definition get_meanstd :: "torch_env \<Rightarrow> dataset \<Rightarrow> error + rat list \<times> rat list" where
  "get_meanstd env dataset =
     (case module_globals env ''trainset'' of
        None \<Rightarrow> Inl (NameError ''trainset'')
      | Some trainset \<Rightarrow> Inr (tensor_meanstd env trainset))"

text \<open>The statistics resolver, lines 150 to 153 of \<open>_build_datasets\<close>.\<close>

definition resolve_meanstd :: "torch_env \<Rightarrow> cfg_data \<Rightarrow> dataset \<Rightarrow> error + rat list option \<times> rat list option" where
  "resolve_meanstd env cfg trainset =
     (if data_mean cfg = None
      then (case get_meanstd env trainset of
              Inl e \<Rightarrow> Inl e
            | Inr ms \<Rightarrow> Inr (Some (fst ms), Some (snd ms)))
      else Inr (data_mean cfg, data_std cfg))"

text \<open>Lines 120 to 148: the train and validation set of the configured name.\<close>

definition select_dataset :: "cfg_data \<Rightarrow> bool \<Rightarrow> error + dataset \<times> dataset" where
  "select_dataset cfg can_download =
     (let root = VStr (data_path cfg); dl = VBool can_download in
      if data_name cfg = ''CIFAR10'' then
        Inr (Opened ''CIFAR10'' [(''root'', root), (''train'', VBool True), (''download'', dl)]
               (Some ToTensor) (Native ''CIFAR10''),
             Opened ''CIFAR10'' [(''root'', root), (''train'', VBool False), (''download'', dl)]
               None (Native ''CIFAR10''))
      else if data_name cfg = ''MNIST'' then
        Inr (Opened ''MNIST'' [(''root'', root), (''train'', VBool True), (''download'', dl)]
               (Some ToTensor) (Native ''MNIST''),
             Opened ''MNIST'' [(''root'', root), (''train'', VBool False), (''download'', dl)]
               None (Native ''MNIST''))
      else if data_name cfg = ''EMNIST'' then
        Inr (Opened ''EMNIST'' [(''root'', root), (''split'', VStr (data_split cfg)),
                                (''train'', VBool True), (''download'', dl)]
               (Some ToTensor) (Native ''EMNIST''),
             Opened ''EMNIST'' [(''root'', root), (''split'', VStr (data_split cfg)),
                                (''train'', VBool False), (''download'', dl)]
               None (Native ''EMNIST''))
      else if data_name cfg = ''SVHN'' then
        Inr (set_classes (RangeList 10)
               (Opened ''SVHN'' [(''root'', root), (''split'', VStr ''train''), (''download'', dl)]
                  (Some ToTensor) (Native ''SVHN'')),
             set_classes (RangeList 10)
               (Opened ''SVHN'' [(''root'', root), (''split'', VStr ''test''), (''download'', dl)]
                  None (Native ''SVHN'')))
      else if data_name cfg = ''CINIC10'' then
        Inr (Opened ''CINIC10'' [(''root'', root), (''split'', VStr ''train''), (''download'', dl),
                                 (''deduplicate'', VBool True)]
               (Some ToTensor) (Native ''CINIC10''),
             Opened ''CINIC10'' [(''root'', root), (''split'', VStr ''valid''), (''download'', dl),
                                 (''deduplicate'', VBool True)]
               (Some ToTensor) (Native ''CINIC10''))
      else if data_name cfg = ''CIFAR100'' then
        Inr (Opened ''CIFAR100'' [(''root'', root), (''train'', VBool True), (''download'', dl)]
               (Some ToTensor) (Native ''CIFAR100''),
             Opened ''CIFAR100'' [(''root'', root), (''train'', VBool False), (''download'', dl)]
               None (Native ''CIFAR100''))
      else if data_name cfg = ''ImageNet'' then
        Inr (Opened ''ImageNet'' [(''root'', root), (''split'', VStr ''train'')]
               (Some ToTensor) (Native ''ImageNet''),
             Opened ''ImageNet'' [(''root'', root), (''split'', VStr ''val'')]
               None (Native ''ImageNet''))
      else if data_name cfg = ''TinyImageNet'' then
        Inr (Opened ''TinyImageNet'' [(''root'', root), (''split'', VStr ''train''), (''download'', dl),
                                      (''cached'', VBool True)]
               (Some ToTensor) (Native ''TinyImageNet''),
             Opened ''TinyImageNet'' [(''root'', root), (''split'', VStr ''val''), (''download'', dl),
                                      (''cached'', VBool True)]
               None (Native ''TinyImageNet''))
      else Inl (ValueError ''Invalid dataset provided.''))"

text \<open>The body of the loop over \<open>cfg_data.extra_validation\<close>: the extra validation set
  of one name.\<close>

definition extra_validset :: "cfg_data \<Rightarrow> bool \<Rightarrow> transform option \<Rightarrow> string \<Rightarrow> error + dataset" where
  "extra_validset cfg can_download valid_transforms extra_valid_name =
     (let root = VStr (data_path cfg); dl = VBool can_download in
      if extra_valid_name = ''CINIC10'' then
        Inr (Opened ''CINIC10'' [(''root'', root), (''split'', VStr ''valid''), (''download'', dl),
                                 (''deduplicate'', VBool True)]
               valid_transforms (Native ''CINIC10''))
      else if extra_valid_name = ''CIFAR10-C'' then
        Inr (Opened ''CIFAR10C'' [(''root'', root), (''split'', VStr ''valid''), (''download'', dl),
                                  (''severity'', VInt 3)]
               valid_transforms (Native ''CIFAR10C''))
      else if extra_valid_name = ''CIFAR10'' then
        Inr (Opened ''CIFAR10'' [(''root'', root), (''train'', VBool False), (''download'', dl)]
               valid_transforms (Native ''CIFAR10''))
      else Inl (ValueError ''Invalid extra validation set given.''))"

text \<open>The loop: each set is stored under its name; assigning to a key already in the
  dictionary replaces its value and keeps its position.\<close>

fun extra_validsets :: "cfg_data \<Rightarrow> bool \<Rightarrow> transform option \<Rightarrow> string list \<Rightarrow>
    (string \<times> dataset) list \<Rightarrow> error + (string \<times> dataset) list" where
  "extra_validsets cfg can_download valid_transforms [] validsets = Inr validsets"
| "extra_validsets cfg can_download valid_transforms (extra_valid_name # names) validsets =
     (case extra_validset cfg can_download valid_transforms extra_valid_name of
        Inl e \<Rightarrow> Inl e
      | Inr extra \<Rightarrow>
          extra_validsets cfg can_download valid_transforms names
            (AList.update extra_valid_name extra validsets))"

text \<open>The slice \<^verbatim>\<open>indices[: k]\<close>; a negative \<open>k\<close> counts from the end.\<close>

definition slice_to :: "'a list \<Rightarrow> int \<Rightarrow> 'a list" where
  "slice_to xs k = (if 0 \<le> k then take (nat k) xs else take (length xs - nat (- k)) xs)"

text \<open>Lines 190 to 198: the size reduction of the train set.\<close>

definition reduce_size :: "torch_env \<Rightarrow> cfg_data \<Rightarrow> dataset \<Rightarrow> dataset" where
  "reduce_size env cfg trainset =
     (if data_size cfg < int (len (disk_len env) trainset)
      then (let generator = (if data_deterministic_subsets cfg
                             then manual_seed 89 else default_generator (rng_state env));
                indices = randperm env (len (disk_len env) trainset) generator
            in Subset trainset (slice_to indices (data_size cfg)))
      else trainset)"

text \<open>\<open>_build_datasets\<close>. The resolved statistics are bound (to \<^verbatim>\<open>data_mean\<close> and
  \<^verbatim>\<open>data_std\<close> in the source, to \<open>data_meanstd\<close> here) and not read again.\<close>

definition build_datasets :: "torch_env \<Rightarrow> cfg_data \<Rightarrow> bool \<Rightarrow> error + dataset \<times> (string \<times> dataset) list" where
  "build_datasets env cfg0 can_download =
     (let cfg = cfg0\<lparr> data_path := expanduser env (data_path cfg0) \<rparr> in
      case select_dataset cfg can_download of
        Inl e \<Rightarrow> Inl e
      | Inr tv \<Rightarrow>
          (case resolve_meanstd env cfg (fst tv) of
             Inl e \<Rightarrow> Inl e
           | Inr data_meanstd \<Rightarrow>
               (case parse_data_augmentations (transforms env) cfg False of
                  Inl e \<Rightarrow> Inl e
                | Inr tfs \<Rightarrow>
                    (let trainset = set_transform (Some (fst tfs)) (fst tv);
                         validset = set_transform (Some (snd tfs)) (snd tv)
                     in case extra_validsets cfg can_download (Some (snd tfs))
                               (data_extra_validation cfg) [(data_name cfg, validset)] of
                          Inl e \<Rightarrow> Inl e
                        | Inr validsets \<Rightarrow> Inr (reduce_size env cfg trainset, validsets)))))"

subsection \<open>Samplers and loaders\<close>

datatype sampler =
    DistributedSampler dataset bool
  | RandomSampler dataset bool
  | SequentialSampler dataset

record dataloader =
  dl_dataset :: dataset
  dl_batch_size :: int
  dl_sampler :: sampler
  dl_drop_last :: bool
  dl_num_workers :: int
  dl_pin_memory :: bool
  dl_persistent_workers :: bool

text \<open>
  The library's constructors, as far as their checks can stop \<open>construct_dataloader\<close>:
  a distributed sampler asks the process group for the world size and the rank, a random
  sampler refuses an empty dataset, a loader refuses a batch size that is not positive,
  a negative worker count, and persistent workers without workers. A loader given no
  sampler and \<^verbatim>\<open>shuffle=False\<close> reads the dataset sequentially.
\<close>

definition new_DistributedSampler :: "torch_env \<Rightarrow> dataset \<Rightarrow> bool \<Rightarrow> error + sampler" where
  "new_DistributedSampler env dataset shuffle =
     (if dist_is_initialized env then Inr (DistributedSampler dataset shuffle)
      else Inl ProcessGroupError)"

definition new_RandomSampler :: "torch_env \<Rightarrow> dataset \<Rightarrow> bool \<Rightarrow> error + sampler" where
  "new_RandomSampler env dataset replacement =
     (if len (disk_len env) dataset = 0
      then Inl (ValueError ''num_samples should be a positive integer value'')
      else Inr (RandomSampler dataset replacement))"

definition DataLoader :: "dataset \<Rightarrow> int \<Rightarrow> sampler \<Rightarrow> bool \<Rightarrow> int \<Rightarrow> bool \<Rightarrow> bool \<Rightarrow> error + dataloader" where
  "DataLoader dataset batch_size smp drop_last num_workers pin_memory persistent_workers =
     (if num_workers < 0
      then Inl (ValueError ''num_workers option should be non-negative'')
      else if persistent_workers \<and> num_workers = 0
      then Inl (ValueError ''persistent_workers option needs num_workers > 0'')
      else if batch_size \<le> 0
      then Inl (ValueError ''batch_size should be a positive integer value'')
      else Inr \<lparr> dl_dataset = dataset, dl_batch_size = batch_size, dl_sampler = smp,
                 dl_drop_last = drop_last, dl_num_workers = num_workers,
                 dl_pin_memory = pin_memory, dl_persistent_workers = persistent_workers \<rparr>)"

text \<open>
  The number of indices a sampler yields in one pass: a sequential or random sampler
  yields one index per sample; a distributed sampler yields the size of one shard, the
  dataset length divided by the number of processes, rounded up. A loader groups them in
  batches and, with \<^verbatim>\<open>drop_last\<close>, discards a trailing partial batch. \<open>num_batches\<close> is
  the number of batches the loader forms from the indices, its length; whether a pass
  delivers them is \<open>run_pass\<close> below.
\<close>

fun sampler_len :: "torch_env \<Rightarrow> sampler \<Rightarrow> nat" where
  "sampler_len env (DistributedSampler d sh) =
     (len (disk_len env) d + dist_get_world_size env - 1) div dist_get_world_size env"
| "sampler_len env (RandomSampler d r) = len (disk_len env) d"
| "sampler_len env (SequentialSampler d) = len (disk_len env) d"

definition num_batches :: "torch_env \<Rightarrow> dataloader \<Rightarrow> nat" where
  "num_batches env dl =
     (if dl_drop_last dl
      then sampler_len env (dl_sampler dl) div nat (dl_batch_size dl)
      else (sampler_len env (dl_sampler dl) + nat (dl_batch_size dl) - 1) div nat (dl_batch_size dl))"

subsection \<open>One pass over a loader\<close>

text \<open>
  Reading item \<open>i\<close>. An opened dataset checks the index against its length and then
  reads and transforms the sample. A Subset (this file's class inherits \<open>__getitem__\<close>
  from the library's) looks up \<open>indices[i]\<close> and reads that item of the dataset it
  wraps: nothing has checked that the stored indices are within that dataset.
  Modelled from the spec: \<open>LMDBDataset\<close> and \<open>CachedDataset\<close> serve an item from their
  store or fall back to the dataset they decorate, so an item can be read from the
  wrapper when it can be read from the decorated dataset.
\<close>

fun getitem :: "torch_env \<Rightarrow> dataset \<Rightarrow> nat \<Rightarrow> error + unit" where
  "getitem env (Opened c kw t cl) i =
     (if i < disk_len env c kw
      then (case read_item env (Opened c kw t cl) i of None \<Rightarrow> Inr () | Some e \<Rightarrow> Inl e)
      else Inl IndexError)"
| "getitem env (SubsetObj d idx t cl) i =
     (if i < length idx then getitem env d (idx ! i) else Inl IndexError)"
| "getitem env (LMDBDataset d db n cc) i = getitem env d i"
| "getitem env (CachedDataset d nw pm) i = getitem env d i"

text \<open>The index a sampler yields at position \<open>k\<close> of a pass.\<close>

fun sampler_index :: "torch_env \<Rightarrow> sampler \<Rightarrow> nat \<Rightarrow> nat" where
  "sampler_index env (SequentialSampler d) k = k"
| "sampler_index env (RandomSampler d r) k = random_index env (len (disk_len env) d) r k"
| "sampler_index env (DistributedSampler d sh) k = shard_index env (len (disk_len env) d) sh k"

text \<open>
  The indices a pass reads, in order: with \<^verbatim>\<open>drop_last\<close> those of the full batches only
  (the indices of a trailing partial batch are discarded before anything is read),
  otherwise all the sampler yields. The pass reads them one after the other, stops at
  the first item that cannot be read with that item's error, and otherwise has
  delivered as many batches as the loader formed.
\<close>

definition pass_indices :: "torch_env \<Rightarrow> dataloader \<Rightarrow> nat list" where
  "pass_indices env dl =
     map (sampler_index env (dl_sampler dl))
       [0..<(if dl_drop_last dl then num_batches env dl * nat (dl_batch_size dl)
             else sampler_len env (dl_sampler dl))]"

fun fetch_all :: "torch_env \<Rightarrow> dataset \<Rightarrow> nat list \<Rightarrow> error + unit" where
  "fetch_all env d [] = Inr ()"
| "fetch_all env d (i # rest) =
     (case getitem env d i of Inl e \<Rightarrow> Inl e | Inr u \<Rightarrow> fetch_all env d rest)"

definition run_pass :: "torch_env \<Rightarrow> dataloader \<Rightarrow> error + nat" where
  "run_pass env dl =
     (case fetch_all env (dl_dataset dl) (pass_indices env dl) of
        Inl e \<Rightarrow> Inl e
      | Inr u \<Rightarrow> Inr (num_batches env dl))"

subsection \<open>construct\_dataloader\<close>

definition arange :: "int \<Rightarrow> nat list" where
  "arange n = [0..<nat n]"

text \<open>
  Line 45, the comprehension over \<open>validsets.items()\<close>. Its element expression wraps the
  variable \<^verbatim>\<open>validset\<close>, not the loop variable \<^verbatim>\<open>v\<close>. \<^verbatim>\<open>validset\<close> is a local variable of
  \<open>construct_dataloader\<close> (the loop of line 77 assigns it), so the comprehension reads the
  enclosing function's variable, given here as an option: \<open>None\<close> while it is unbound.
\<close>

fun cached_validsets :: "dataset option \<Rightarrow> int \<Rightarrow> bool \<Rightarrow> (string \<times> dataset) list \<Rightarrow>
    error + (string \<times> dataset) list" where
  "cached_validsets validset num_workers pin_memory [] = Inr []"
| "cached_validsets validset num_workers pin_memory (kv # rest) =
     (case validset of
        None \<Rightarrow> Inl (NameError ''validset'')
      | Some d \<Rightarrow>
          (case cached_validsets validset num_workers pin_memory rest of
             Inl e \<Rightarrow> Inl e
           | Inr r \<Rightarrow> Inr ((fst kv, CachedDataset d num_workers pin_memory) # r)))"

text \<open>Lines 28 to 45: the wrappers, in the order of the source. The context manager
  \<open>main_process_first\<close> around the LMDB wrapper only orders the processes of a group (a
  barrier before or after the block); it does not change what the block computes. The
  \<^verbatim>\<open>set_epoch\<close> attribute patched onto the non-distributed samplers does nothing and is
  not recorded.\<close>

definition wrap_lmdb :: "torch_env \<Rightarrow> cfg_data \<Rightarrow> dataset \<Rightarrow> dataset" where
  "wrap_lmdb env cfg trainset =
     (if data_db_name cfg = ''LMDB''
      then LMDBDataset trainset (data_db_name cfg) ''train''
             (\<not> dist_is_initialized env \<or> dist_get_rank env = 0)
      else trainset)"

definition num_machines :: "torch_env \<Rightarrow> int" where
  "num_machines env = (if dist_is_initialized env then int (dist_get_world_size env) else 1)"

definition wrap_dryrun :: "torch_env \<Rightarrow> cfg_data \<Rightarrow> bool \<Rightarrow> dataset \<Rightarrow> dataset" where
  "wrap_dryrun env cfg dryrun d =
     (if dryrun then Subset d (arange (data_batch_size cfg * num_machines env)) else d)"

definition wrap_caching :: "cfg_data \<Rightarrow> cfg_impl \<Rightarrow> dataset \<times> (string \<times> dataset) list \<Rightarrow>
    error + dataset \<times> (string \<times> dataset) list" where
  "wrap_caching cfg impl tv =
     (if data_caching cfg
      then (case cached_validsets None (impl_threads impl) (impl_pin_memory impl) (snd tv) of
              Inl e \<Rightarrow> Inl e
            | Inr validsets \<Rightarrow>
                Inr (CachedDataset (fst tv) (impl_threads impl) (impl_pin_memory impl), validsets))
      else Inr tv)"

text \<open>Lines 47 to 50: the number of worker processes of the loaders.\<close>

definition get_num_workers :: "torch_env \<Rightarrow> cfg_impl \<Rightarrow> int" where
  "get_num_workers env impl =
     (if 0 < impl_threads impl \<and> 1 < get_num_threads env
      then min (get_num_threads env) (impl_threads impl) div max 1 (cuda_device_count env)
      else 0)"

text \<open>Lines 52 to 58: the sampling strategy of the train loader.\<close>

definition new_train_sampler :: "torch_env \<Rightarrow> cfg_impl \<Rightarrow> cfg_hyp \<Rightarrow> dataset \<Rightarrow> error + sampler" where
  "new_train_sampler env impl hyp trainset =
     (if impl_setup_dist impl then new_DistributedSampler env trainset (hyp_shuffle hyp)
      else if hyp_shuffle hyp
      then new_RandomSampler env trainset (hyp_sample_with_replacement hyp)
      else Inr (SequentialSampler trainset))"

text \<open>Lines 76 to 88: one loader per validation set, in the order of the dictionary.\<close>

fun new_validloaders :: "torch_env \<Rightarrow> cfg_data \<Rightarrow> cfg_impl \<Rightarrow> int \<Rightarrow> (string \<times> dataset) list \<Rightarrow>
    error + (string \<times> dataloader) list" where
  "new_validloaders env cfg impl num_workers [] = Inr []"
| "new_validloaders env cfg impl num_workers (kv # rest) =
     (case DataLoader (snd kv)
             (min (data_batch_size cfg) (int (len (disk_len env) (snd kv))))
             (SequentialSampler (snd kv)) True num_workers (impl_pin_memory impl) False of
        Inl e \<Rightarrow> Inl e
      | Inr validloader \<Rightarrow>
          (case new_validloaders env cfg impl num_workers rest of
             Inl e \<Rightarrow> Inl e
           | Inr validloaders \<Rightarrow> Inr ((fst kv, validloader) # validloaders)))"

text \<open>\<open>construct_dataloader\<close>: the datasets, the wrappers, the samplers and the loaders.\<close>

definition construct_dataloader :: "torch_env \<Rightarrow> cfg_data \<Rightarrow> cfg_impl \<Rightarrow> cfg_hyp \<Rightarrow> bool \<Rightarrow>
    error + dataloader \<times> (string \<times> dataloader) list" where
  "construct_dataloader env cfg impl hyp dryrun =
     (case build_datasets env cfg (\<not> impl_setup_dist impl) of
        Inl e \<Rightarrow> Inl e
      | Inr built \<Rightarrow>
          (case wrap_caching cfg impl
                  (wrap_dryrun env cfg dryrun (wrap_lmdb env cfg (fst built)),
                   map (\<lambda>kv. (fst kv, wrap_dryrun env cfg dryrun (snd kv))) (snd built)) of
             Inl e \<Rightarrow> Inl e
           | Inr wrapped \<Rightarrow>
               (let trainset = fst wrapped; validsets = snd wrapped;
                    num_workers = get_num_workers env impl
                in case new_train_sampler env impl hyp trainset of
                     Inl e \<Rightarrow> Inl e
                   | Inr train_sampler \<Rightarrow>
                       (case DataLoader trainset
                               (min (data_batch_size cfg) (int (len (disk_len env) trainset)))
                               train_sampler True num_workers (impl_pin_memory impl)
                               (if 0 < num_workers then impl_persistent_workers impl else False) of
                          Inl e \<Rightarrow> Inl e
                        | Inr trainloader \<Rightarrow>
                            (case new_validloaders env cfg impl num_workers validsets of
                               Inl e \<Rightarrow> Inl e
                             | Inr validloaders \<Rightarrow> Inr (trainloader, validloaders))))))"

subsection \<open>Reading the results\<close>

text \<open>The constructor call at the bottom of a stack of wrappers.\<close>

fun base_of :: "dataset \<Rightarrow> dataset" where
  "base_of (Opened c kw t cl) = Opened c kw t cl"
| "base_of (SubsetObj d idx t cl) = base_of d"
| "base_of (LMDBDataset d db n cc) = base_of d"
| "base_of (CachedDataset d nw pm) = base_of d"

fun class_name :: "dataset \<Rightarrow> string" where
  "class_name (Opened c kw t cl) = c"
| "class_name (SubsetObj d idx t cl) = class_name d"
| "class_name (LMDBDataset d db n cc) = class_name d"
| "class_name (CachedDataset d nw pm) = class_name d"

text \<open>The \<^verbatim>\<open>download\<close> keyword argument the dataset was opened with, if it was given one.\<close>

fun download_of :: "dataset \<Rightarrow> cfgval option" where
  "download_of (Opened c kw t cl) = map_of kw ''download''"
| "download_of (SubsetObj d idx t cl) = download_of d"
| "download_of (LMDBDataset d db n cc) = download_of d"
| "download_of (CachedDataset d nw pm) = download_of d"

abbreviation download_as_granted :: "bool \<Rightarrow> dataset \<Rightarrow> bool" where
  "download_as_granted can_download d \<equiv>
     download_of d = (if class_name d = ''ImageNet'' then None else Some (VBool can_download))"

fun aa_params_of :: "transform \<Rightarrow> aa_params option" where
  "aa_params_of (rand_augment_transform s aa) = Some aa"
| "aa_params_of (augment_and_mix_transform s aa) = Some aa"
| "aa_params_of (auto_augment_transform s aa) = Some aa"
| "aa_params_of t = None"

definition items_of :: "(string \<times> cfgval) list option \<Rightarrow> (string \<times> cfgval) list" where
  "items_of cfg_dict = (case cfg_dict of None \<Rightarrow> [] | Some items \<Rightarrow> items)"

subsection \<open>Applying a pipeline: the type of the sample\<close>

text \<open>
  A sample is an image or a tensor. Tensor conversion takes an image and returns a
  tensor; normalisation takes and returns a tensor, and needs both statistics; what any
  other operation does to the sample is the operation's own business, given by \<open>sem\<close>.
  \<open>Compose\<close> applies its steps from left to right and stops at the first error.
\<close>

datatype sample_kind = Image | Tensor

fun run_transform :: "(transform \<Rightarrow> sample_kind \<Rightarrow> error + sample_kind) \<Rightarrow> transform \<Rightarrow>
      sample_kind \<Rightarrow> error + sample_kind"
  and run_steps :: "(transform \<Rightarrow> sample_kind \<Rightarrow> error + sample_kind) \<Rightarrow> transform list \<Rightarrow>
      sample_kind \<Rightarrow> error + sample_kind" where
  "run_transform sem ToTensor k = (case k of Image \<Rightarrow> Inr Tensor | Tensor \<Rightarrow> Inl TypeError)"
| "run_transform sem (Normalize m s) k =
     (case k of
        Image \<Rightarrow> Inl TypeError
      | Tensor \<Rightarrow> (if m = None \<or> s = None then Inl TypeError else Inr Tensor))"
| "run_transform sem (Compose ts) k = run_steps sem ts k"
| "run_transform sem ToRGB k = sem ToRGB k"
| "run_transform sem (Resize a b) k = sem (Resize a b) k"
| "run_transform sem (Cutout a m) k = sem (Cutout a m) k"
| "run_transform sem (rand_augment_transform s aa) k = sem (rand_augment_transform s aa) k"
| "run_transform sem (augment_and_mix_transform s aa) k = sem (augment_and_mix_transform s aa) k"
| "run_transform sem (auto_augment_transform s aa) k = sem (auto_augment_transform s aa) k"
| "run_transform sem (AutoAugment p) k = sem (AutoAugment p) k"
| "run_transform sem RandAugment k = sem RandAugment k"
| "run_transform sem (Generic n a) k = sem (Generic n a) k"
| "run_steps sem [] k = Inr k"
| "run_steps sem (t # ts) k =
     (case run_transform sem t k of Inl e \<Rightarrow> Inl e | Inr k' \<Rightarrow> run_steps sem ts k')"

subsection \<open>Object identity: \<open>Subset.__init__\<close> on a heap\<close>

text \<open>
  For questions of aliasing the objects live in a heap: an address is an index into a
  list of objects, an object is its attribute dictionary, and an attribute holds a
  reference, \<^verbatim>\<open>None\<close>, or a tensor of indices. Attribute assignment rebinds one attribute
  of one object. The function \<open>Subset\<close> above is what \<open>new_Subset\<close> leaves in the heap,
  read as a value.
\<close>

datatype pyval = Ref nat | PyNone | Indices "nat list"

type_synonym pyobj = "(string \<times> pyval) list"

type_synonym heap = "pyobj list"

definition getattr :: "heap \<Rightarrow> nat \<Rightarrow> string \<Rightarrow> error + pyval" where
  "getattr h r a =
     (if r < length h
      then (case map_of (h ! r) a of None \<Rightarrow> Inl (AttributeError a) | Some v \<Rightarrow> Inr v)
      else Inl (AttributeError a))"

definition setattr :: "heap \<Rightarrow> nat \<Rightarrow> string \<Rightarrow> pyval \<Rightarrow> heap" where
  "setattr h r a v = (if r < length h then h[r := AList.update a v (h ! r)] else h)"

definition Subset_init :: "heap \<Rightarrow> nat \<Rightarrow> nat \<Rightarrow> pyval \<Rightarrow> error + heap" where
  "Subset_init h self dataset indices =
     (let h1 = setattr h self ''dataset'' (Ref dataset);
          h2 = setattr h1 self ''indices'' indices
      in case getattr h2 dataset ''transform'' of
           Inl e \<Rightarrow> Inl e
         | Inr t \<Rightarrow>
             (let h3 = setattr h2 self ''transform'' t
              in case getattr h3 dataset ''classes'' of
                   Inl e \<Rightarrow> Inl e
                 | Inr c \<Rightarrow> Inr (setattr h3 self ''classes'' c)))"

text \<open>The call \<^verbatim>\<open>Subset(dataset, indices)\<close>: a fresh object, then \<open>__init__\<close>.\<close>

definition new_Subset :: "heap \<Rightarrow> nat \<Rightarrow> pyval \<Rightarrow> error + nat \<times> heap" where
  "new_Subset h dataset indices =
     (case Subset_init (h @ [ [] ]) (length h) dataset indices of
        Inl e \<Rightarrow> Inl e
      | Inr h' \<Rightarrow> Inr (length h, h'))"

subsection \<open>A small environment and configuration\<close>

text \<open>
  A concrete process and configuration on which the definitions are evaluated: a
  single process without a process group, a train split of 105 samples and validation
  splits of 40, CIFAR10 with explicit statistics, batches of 32. Every item in range
  can be read; the random sampler yields the indices from the last to the first, and in
  a group of two the shard of this process holds the even indices.
\<close>

definition demo_randperm :: "nat \<Rightarrow> generator \<Rightarrow> nat list" where
  "demo_randperm n g =
     (case g of
        manual_seed s \<Rightarrow> rev [0..<n]
      | default_generator s \<Rightarrow> (if even s then [0..<n] else rev [0..<n]))"

definition demo_transforms :: transforms_lib where
  "demo_transforms key =
     (if key \<in> set [''RandomCrop'', ''RandomHorizontalFlip'', ''CenterCrop'']
      then Some (\<lambda>args. Inr (Generic key args)) else None)"

definition demo_disk_len :: "string \<Rightarrow> (string \<times> cfgval) list \<Rightarrow> nat" where
  "demo_disk_len c kw =
     (if map_of kw ''train'' = Some (VBool True) \<or> map_of kw ''split'' = Some (VStr ''train'')
      then 105 else 40)"

definition demo_env :: torch_env where
  "demo_env =
     \<lparr> dist_is_initialized = False, dist_get_rank = 0, dist_get_world_size = 1,
       get_num_threads = 8, cuda_device_count = 1, expanduser = (\<lambda>p. p),
       disk_len = demo_disk_len, module_globals = data_preparation_globals,
       tensor_meanstd = (\<lambda>d. ([1 / 4, 1 / 4, 1 / 4], [1 / 8, 1 / 8, 1 / 8])),
       rng_state = 0, randperm = demo_randperm, transforms = demo_transforms,
       read_item = (\<lambda>d i. None),
       random_index = (\<lambda>n r k. n - 1 - k),
       shard_index = (\<lambda>n sh k. (2 * k) mod n) \<rparr>"

text \<open>The same process as one of two in an initialised process group.\<close>

definition demo_dist_env :: torch_env where
  "demo_dist_env = demo_env\<lparr> dist_is_initialized := True, dist_get_world_size := 2 \<rparr>"

definition demo_cfg :: cfg_data where
  "demo_cfg =
     \<lparr> data_name = ''CIFAR10'', data_path = ''data'', data_split = ''balanced'',
       data_mean = Some [1 / 2, 1 / 2, 1 / 2], data_std = Some [1 / 2, 1 / 2, 1 / 2],
       data_pixels = 64, data_normalize = True,
       data_augmentations_train = Some [(''Resize'', VInt 64), (''ToRGB'', VDict [])],
       data_augmentations_val = Some [],
       data_extra_validation = [''CIFAR10-C''],
       data_size = 105, data_deterministic_subsets = True, data_batch_size = 32,
       data_caching = False, data_db_name = ''none'' \<rparr>"

text \<open>The train set this configuration opens, with the train pipeline assigned.\<close>

definition demo_base :: dataset where
  "demo_base =
     Opened ''CIFAR10'' [(''root'', VStr ''data''), (''train'', VBool True), (''download'', VBool True)]
       (Some (Compose [Resize (VInt 64) (VInt 64), ToRGB, ToTensor,
                       Normalize (Some [1 / 2, 1 / 2, 1 / 2]) (Some [1 / 2, 1 / 2, 1 / 2])]))
       (Native ''CIFAR10'')"

text \<open>A process in which some other code has bound the global name \<^verbatim>\<open>trainset\<close> in the
  module, so that \<open>_get_meanstd\<close> finds it.\<close>

definition demo_bound_env :: torch_env where
  "demo_bound_env =
     demo_env\<lparr> module_globals := (\<lambda>n. if n = ''trainset'' then Some demo_base else None) \<rparr>"

definition demo_impl :: cfg_impl where
  "demo_impl =
     \<lparr> impl_threads = 4, impl_pin_memory = True, impl_persistent_workers = True,
       impl_setup_dist = False \<rparr>"

definition demo_hyp :: cfg_hyp where
  "demo_hyp = \<lparr> hyp_shuffle = True, hyp_sample_with_replacement = False \<rparr>"

text \<open>What the operations of the example specification do to the kind of a sample:
  resizing and colour conversion take an image and return an image.\<close>

fun demo_sem :: "transform \<Rightarrow> sample_kind \<Rightarrow> error + sample_kind" where
  "demo_sem (Resize a b) k = Inr k"
| "demo_sem ToRGB k = (case k of Image \<Rightarrow> Inr Image | Tensor \<Rightarrow> Inl (AttributeError ''convert''))"
| "demo_sem t k = Inr k"

text \<open>A heap with two transform objects (0 and 3), a class list (1) and a dataset (2)
  whose \<open>transform\<close> is object 0 and whose \<open>classes\<close> is object 1.\<close>

definition demo_heap :: heap where
  "demo_heap =
     [ [(''transforms'', Indices [])], [],
      [(''transform'', Ref 0), (''classes'', Ref 1)], [] ]"

section \<open>Properties\<close>

subsection \<open>The augmentation pipeline\<close>

lemma parse_items_map:
  "parse_items lib cfg items = Inr ts \<Longrightarrow>
   map (\<lambda>kv. resolve_entry lib cfg (fst kv) (snd kv)) items = map Inr ts"
  by (induction items arbitrary: ts) (auto split: sum.splits)

lemma parse_cfg_dict_map:
  "parse_cfg_dict lib cfg d = Inr ts \<Longrightarrow>
   map (\<lambda>kv. resolve_entry lib cfg (fst kv) (snd kv)) (items_of d) = map Inr ts"
  by (cases d) (simp_all add: parse_cfg_dict_def items_of_def parse_items_map)

lemma run_steps_append:
  "run_steps sem (xs @ ys) k =
     (case run_steps sem xs k of Inl e \<Rightarrow> Inl e | Inr k' \<Rightarrow> run_steps sem ys k')"
  by (induction xs arbitrary: k) (auto split: sum.splits)

lemma run_appended_tensor:
  "run_steps sem (ToTensor # (if n then [Normalize m s] else [])) k = Inr k' \<Longrightarrow> k' = Tensor"
  by (cases k) (auto split: if_splits sample_kind.splits)

lemma run_pipeline_tensor:
  assumes "run_transform sem (Compose (ops @ ToTensor # (if n then [Normalize m s] else []))) k = Inr k'"
  shows "k' = Tensor"
proof -
  from assms obtain k1 where "run_steps sem (ToTensor # (if n then [Normalize m s] else [])) k1 = Inr k'"
    by (auto simp: run_steps_append split: sum.splits)
  then show ?thesis by (rule run_appended_tensor)
qed

text \<open>
  Claim C7. The built pipeline applies the configured augmentation operations in the
  iteration order of the mapping, then tensor conversion, then, only if the normalize
  flag is set, the mean/std normalisation last; whatever the flag, a sample that comes
  out of the pipeline is a tensor. For the specification \<open>{Resize: 64, ToRGB: {}}\<close> the
  resize to 64 by 64 comes before the colour conversion.
\<close>

theorem pipeline_order:
  assumes "parse_data_augmentations lib cfg False = Inr (train, valid)"
  shows "\<exists>ops_train ops_valid.
      map (\<lambda>kv. resolve_entry lib cfg (fst kv) (snd kv)) (items_of (data_augmentations_train cfg))
        = map Inr ops_train
    \<and> map (\<lambda>kv. resolve_entry lib cfg (fst kv) (snd kv)) (items_of (data_augmentations_val cfg))
        = map Inr ops_valid
    \<and> train = Compose (ops_train @ ToTensor #
                (if data_normalize cfg then [Normalize (data_mean cfg) (data_std cfg)] else []))
    \<and> valid = Compose (ops_valid @ ToTensor #
                (if data_normalize cfg then [Normalize (data_mean cfg) (data_std cfg)] else []))
    \<and> (\<forall>sem k k'. run_transform sem train k = Inr k' \<longrightarrow> k' = Tensor)
    \<and> (\<forall>sem k k'. run_transform sem valid k = Inr k' \<longrightarrow> k' = Tensor)"
proof -
  from assms obtain ops_train ops_valid where
    pt: "parse_cfg_dict lib cfg (data_augmentations_train cfg) = Inr ops_train" and
    pv: "parse_cfg_dict lib cfg (data_augmentations_val cfg) = Inr ops_valid" and
    tr: "train = Compose (ops_train @ ToTensor #
                (if data_normalize cfg then [Normalize (data_mean cfg) (data_std cfg)] else []))" and
    va: "valid = Compose (ops_valid @ ToTensor #
                (if data_normalize cfg then [Normalize (data_mean cfg) (data_std cfg)] else []))"
    by (auto simp: parse_data_augmentations_def Let_def split: sum.splits)
  have "\<forall>sem k k'. run_transform sem train k = Inr k' \<longrightarrow> k' = Tensor"
    unfolding tr using run_pipeline_tensor by blast
  moreover have "\<forall>sem k k'. run_transform sem valid k = Inr k' \<longrightarrow> k' = Tensor"
    unfolding va using run_pipeline_tensor by blast
  ultimately show ?thesis
    using parse_cfg_dict_map[OF pt] parse_cfg_dict_map[OF pv] tr va by blast
qed

theorem pipeline_order_witness:
  "parse_data_augmentations demo_transforms (demo_cfg\<lparr>data_normalize := False\<rparr>) False
     = Inr (Compose [Resize (VInt 64) (VInt 64), ToRGB, ToTensor], Compose [ToTensor])
   \<and> run_transform demo_sem (Compose [Resize (VInt 64) (VInt 64), ToRGB, ToTensor]) Image = Inr Tensor
   \<and> parse_data_augmentations demo_transforms demo_cfg False
     = Inr (Compose [Resize (VInt 64) (VInt 64), ToRGB, ToTensor,
                     Normalize (Some [1 / 2, 1 / 2, 1 / 2]) (Some [1 / 2, 1 / 2, 1 / 2])],
            Compose [ToTensor, Normalize (Some [1 / 2, 1 / 2, 1 / 2]) (Some [1 / 2, 1 / 2, 1 / 2])])"
proof -
  have h: "parse_data_augmentations demo_transforms (demo_cfg\<lparr>data_normalize := False\<rparr>) False
     = Inr (Compose [Resize (VInt 64) (VInt 64), ToRGB, ToTensor], Compose [ToTensor])"
    by code_simp
  have r: "\<exists>k'. run_transform demo_sem (Compose [Resize (VInt 64) (VInt 64), ToRGB, ToTensor]) Image = Inr k'"
    by simp
  have n: "parse_data_augmentations demo_transforms demo_cfg False
     = Inr (Compose [Resize (VInt 64) (VInt 64), ToRGB, ToTensor,
                     Normalize (Some [1 / 2, 1 / 2, 1 / 2]) (Some [1 / 2, 1 / 2, 1 / 2])],
            Compose [ToTensor, Normalize (Some [1 / 2, 1 / 2, 1 / 2]) (Some [1 / 2, 1 / 2, 1 / 2])])"
    by code_simp
  from pipeline_order[OF h] r have
    "run_transform demo_sem (Compose [Resize (VInt 64) (VInt 64), ToRGB, ToTensor]) Image = Inr Tensor"
    by blast
  with h n show ?thesis by blast
qed

subsection \<open>Caching\<close>

lemma extra_validsets_nonempty:
  "extra_validsets cfg cd vt names vs = Inr r \<Longrightarrow> vs \<noteq> [] \<Longrightarrow> r \<noteq> []"
  by (induction names arbitrary: vs) (auto split: sum.splits)

lemma build_datasets_validsets_nonempty:
  "build_datasets env cfg cd = Inr r \<Longrightarrow> snd r \<noteq> []"
  by (auto simp: build_datasets_def Let_def split: sum.splits dest: extra_validsets_nonempty)

lemma cached_validsets_unbound:
  "vs \<noteq> [] \<Longrightarrow> cached_validsets None nw pm vs = Inl (NameError ''validset'')"
  by (cases vs) simp_all

lemma wrap_caching_unbound:
  "data_caching cfg \<Longrightarrow> snd tv \<noteq> [] \<Longrightarrow> wrap_caching cfg impl tv = Inl (NameError ''validset'')"
  by (simp add: wrap_caching_def cached_validsets_unbound)

text \<open>
  Claim C2. With caching enabled the cache wrapper should be applied to the train set
  and to every validation set, and \<open>construct_dataloader\<close> should return. The
  comprehension of line 45 names \<^verbatim>\<open>validset\<close> where its loop variable is \<^verbatim>\<open>v\<close>; the name
  is unbound at that point, so with caching enabled \<open>construct_dataloader\<close> never returns
  a pair of loaders: it raises, and on the example configuration the error is the
  NameError for \<^verbatim>\<open>validset\<close>.
\<close>

theorem caching_raises:
  "(\<exists>e. construct_dataloader env (cfg\<lparr>data_caching := True\<rparr>) impl hyp dryrun = Inl e)
   \<and> construct_dataloader demo_env (demo_cfg\<lparr>data_caching := True\<rparr>) demo_impl demo_hyp False
       = Inl (NameError ''validset'')"
proof
  show "\<exists>e. construct_dataloader env (cfg\<lparr>data_caching := True\<rparr>) impl hyp dryrun = Inl e"
  proof (cases "build_datasets env (cfg\<lparr>data_caching := True\<rparr>) (\<not> impl_setup_dist impl)")
    case (Inl e)
    then show ?thesis by (simp add: construct_dataloader_def)
  next
    case (Inr built)
    then have "snd built \<noteq> []" by (rule build_datasets_validsets_nonempty)
    then have "wrap_caching (cfg\<lparr>data_caching := True\<rparr>) impl
                (wrap_dryrun env (cfg\<lparr>data_caching := True\<rparr>) dryrun
                   (wrap_lmdb env (cfg\<lparr>data_caching := True\<rparr>) (fst built)),
                 map (\<lambda>kv. (fst kv, wrap_dryrun env (cfg\<lparr>data_caching := True\<rparr>) dryrun (snd kv)))
                   (snd built))
              = Inl (NameError ''validset'')"
      by (intro wrap_caching_unbound) simp_all
    with Inr show ?thesis by (simp add: construct_dataloader_def)
  qed
next
  show "construct_dataloader demo_env (demo_cfg\<lparr>data_caching := True\<rparr>) demo_impl demo_hyp False
       = Inl (NameError ''validset'')"
    by code_simp
qed

subsection \<open>The statistics resolver\<close>

text \<open>
  Claim C3. The resolver returns the explicit mean and std of the configuration
  unchanged and without touching the dataset; without them it should compute the
  channel-wise mean and standard deviation of the train set. \<open>_get_meanstd\<close> takes the
  parameter \<^verbatim>\<open>dataset\<close> and reads the name \<^verbatim>\<open>trainset\<close>, which the module does not bind:
  without explicit statistics the resolver, and with it \<open>_build_datasets\<close>, raises a
  NameError.
\<close>

theorem get_meanstd_raises:
  "get_meanstd (env\<lparr>module_globals := data_preparation_globals\<rparr>) dataset
     = Inl (NameError ''trainset'')
   \<and> resolve_meanstd (env\<lparr>module_globals := data_preparation_globals\<rparr>)
       (cfg\<lparr>data_mean := None\<rparr>) trainset = Inl (NameError ''trainset'')
   \<and> resolve_meanstd env (cfg\<lparr>data_mean := Some m\<rparr>) trainset = Inr (Some m, data_std cfg)
   \<and> build_datasets demo_env (demo_cfg\<lparr>data_mean := None\<rparr>) True = Inl (NameError ''trainset'')"
proof -
  have g: "\<And>d. get_meanstd (env\<lparr>module_globals := data_preparation_globals\<rparr>) d
     = Inl (NameError ''trainset'')"
    by (simp add: get_meanstd_def data_preparation_globals_def)
  have b: "build_datasets demo_env (demo_cfg\<lparr>data_mean := None\<rparr>) True = Inl (NameError ''trainset'')"
    by code_simp
  show ?thesis
    using g b by (simp add: resolve_meanstd_def)
qed

subsection \<open>Parameters of the auto-augmentation policies\<close>

lemma py_int_nonneg: "0 \<le> n \<Longrightarrow> py_int (of_int n * (45 / 100)) = (45 * n) div 100"
proof -
  assume n: "0 \<le> n"
  have "(of_int n * (45 / 100) :: rat) = of_int (45 * n) / of_int 100" by simp
  then have "\<lfloor>of_int n * (45 / 100) :: rat\<rfloor> = (45 * n) div 100"
    by (simp only: floor_divide_of_int_eq)
  moreover have "(0::rat) \<le> of_int n * (45 / 100)" using n by simp
  ultimately show ?thesis by (simp add: py_int_def)
qed

lemma py_round_nonneg: "0 \<le> x \<Longrightarrow> 0 \<le> py_round x"
proof -
  assume "0 \<le> x"
  then have "0 \<le> \<lfloor>x\<rfloor>" by simp
  then show ?thesis by (simp add: py_round_def Let_def)
qed

lemma img_mean_range:
  "list_all (\<lambda>x. 0 \<le> x) m \<Longrightarrow>
   list_all (\<lambda>v. 0 \<le> v \<and> v \<le> 255) (map (\<lambda>x. min 255 (py_round (255 * x))) m)"
  by (induction m) (simp_all add: py_round_nonneg)

text \<open>
  Claim C5, as amended. For the keys RandAugment, AutoAugment and AugMix, a policy string
  and a configured mean, the operation is built with a translate distance equal to
  0.45 times the pixel size truncated towards zero (for a non-negative size, the
  integer quotient of 45 times the size by 100), and with the mean of each channel
  converted as the minimum of 255 and round(255 times the mean): only the upper bound
  is clamped, so the converted means lie between 0 and 255 when the configured means
  are not negative.
\<close>

theorem timm_params:
  assumes "key \<in> set [''RandAugment'', ''AutoAugment'', ''AugMix'']"
  shows "\<exists>t aa. resolve_entry lib (cfg\<lparr>data_mean := Some m\<rparr>) key (VStr s) = Inr t
      \<and> aa_params_of t = Some aa
      \<and> translate_const aa = py_int (of_int (data_pixels cfg) * (45 / 100))
      \<and> (0 \<le> data_pixels cfg \<longrightarrow> translate_const aa = (45 * data_pixels cfg) div 100)
      \<and> img_mean aa = map (\<lambda>x. min 255 (py_round (255 * x))) m
      \<and> (list_all (\<lambda>x. 0 \<le> x) m \<longrightarrow> list_all (\<lambda>v. 0 \<le> v \<and> v \<le> 255) (img_mean aa))"
proof -
  have r: "resolve_entry lib (cfg\<lparr>data_mean := Some m\<rparr>) key (VStr s)
      = get_autoaugment_timm (VStr s) (data_pixels cfg) (Some m)"
    using assms by (auto simp: resolve_entry_def)
  have tc: "0 \<le> data_pixels cfg \<longrightarrow>
      py_int (of_int (data_pixels cfg) * (45 / 100)) = (45 * data_pixels cfg) div 100"
    using py_int_nonneg by blast
  show ?thesis
    unfolding r using tc
    by (auto simp: get_autoaugment_timm_def Let_def img_mean_range)
qed

theorem timm_params_witness:
  "resolve_entry demo_transforms (demo_cfg\<lparr>data_mean := Some [1 / 2, 1 / 10, 2]\<rparr>) ''RandAugment''
      (VStr ''rand-m7-mstd0.5-inc1'')
    = Inr (rand_augment_transform ''rand-m7-mstd0.5-inc1''
            \<lparr>translate_const = 28, img_mean = [128, 26, 255], translate_pct = None\<rparr>)
   \<and> (45 * data_pixels demo_cfg) div 100 = 28"
proof -
  have k: "''RandAugment'' \<in> set [''RandAugment'', ''AutoAugment'', ''AugMix'']" by simp
  have e: "resolve_entry demo_transforms (demo_cfg\<lparr>data_mean := Some [1 / 2, 1 / 10, 2]\<rparr>) ''RandAugment''
      (VStr ''rand-m7-mstd0.5-inc1'')
    = Inr (rand_augment_transform ''rand-m7-mstd0.5-inc1''
            \<lparr>translate_const = 28, img_mean = [128, 26, 255], translate_pct = None\<rparr>)"
    by code_simp
  have p: "0 \<le> data_pixels demo_cfg" by (simp add: demo_cfg_def)
  from timm_params[OF k, where lib = demo_transforms and cfg = demo_cfg and m = "[1 / 2, 1 / 10, 2]"
      and s = "''rand-m7-mstd0.5-inc1''"] e p
  have "(45 * data_pixels demo_cfg) div 100 = 28" by auto
  with e show ?thesis by simp
qed

text \<open>
  Claim C5 as stated fails: at a pixel size of 64 the translate distance is 28, where
  round(0.45 times 64) is 29; and a channel mean of -0.1 is converted to -26, which a
  clamp to the range from 0 to 255 would have made 0.
\<close>

theorem timm_params_counterexample:
  "get_autoaugment_timm (VStr ''rand-m7-mstd0.5-inc1'') 64 (Some [1 / 2, - 1 / 10, 2])
    = Inr (rand_augment_transform ''rand-m7-mstd0.5-inc1''
            \<lparr>translate_const = 28, img_mean = [128, - 26, 255], translate_pct = None\<rparr>)
   \<and> py_round (45 / 100 * 64) = 29
   \<and> max 0 (min 255 (py_round (255 * (- 1 / 10)))) = 0"
  by code_simp

subsection \<open>Subset and the attributes of its parent\<close>

lemma length_setattr: "length (setattr h r a v) = length h"
  by (simp add: setattr_def)

lemma getattr_setattr_same:
  "r < length h \<Longrightarrow> getattr (setattr h r a v) r a = Inr v"
  by (simp add: getattr_def setattr_def update_conv')

lemma getattr_setattr_other:
  "r' \<noteq> r \<or> a' \<noteq> a \<Longrightarrow> getattr (setattr h r a v) r' a' = getattr h r' a'"
  by (auto simp: getattr_def setattr_def update_conv' nth_list_update)

lemma getattr_alloc:
  "r < length h \<Longrightarrow> getattr (h @ [obj]) r a = getattr h r a"
  by (simp add: getattr_def nth_append)

lemma getattr_Inr_valid: "getattr h r a = Inr v \<Longrightarrow> r < length h"
  by (simp add: getattr_def split: if_splits)

lemma Subset_init_result:
  assumes "Subset_init h0 self dataset indices = Inr h'"
  shows "\<exists>t c.
      getattr (setattr (setattr h0 self ''dataset'' (Ref dataset)) self ''indices'' indices)
        dataset ''transform'' = Inr t
    \<and> getattr (setattr (setattr (setattr h0 self ''dataset'' (Ref dataset)) self ''indices'' indices)
          self ''transform'' t) dataset ''classes'' = Inr c
    \<and> h' = setattr (setattr (setattr (setattr h0 self ''dataset'' (Ref dataset))
                     self ''indices'' indices) self ''transform'' t) self ''classes'' c"
proof -
  let ?h2 = "setattr (setattr h0 self ''dataset'' (Ref dataset)) self ''indices'' indices"
  show ?thesis
  proof (cases "getattr ?h2 dataset ''transform''")
    case (Inl e)
    with assms show ?thesis by (simp add: Subset_init_def Let_def)
  next
    case t: (Inr t)
    show ?thesis
    proof (cases "getattr (setattr ?h2 self ''transform'' t) dataset ''classes''")
      case (Inl e)
      with assms t show ?thesis by (simp add: Subset_init_def Let_def)
    next
      case c: (Inr c)
      from assms t c have "h' = setattr (setattr ?h2 self ''transform'' t) self ''classes'' c"
        by (simp add: Subset_init_def Let_def)
      with t c show ?thesis by blast
    qed
  qed
qed

lemma new_Subset_result:
  assumes "new_Subset h parent indices = Inr (s, h')"
  shows "s = length h \<and> parent < length h
    \<and> (\<exists>t c. getattr h parent ''transform'' = Inr t \<and> getattr h parent ''classes'' = Inr c
          \<and> h' = setattr (setattr (setattr (setattr (h @ [ [] ]) s ''dataset'' (Ref parent))
                     s ''indices'' indices) s ''transform'' t) s ''classes'' c)"
proof -
  let ?h2 = "setattr (setattr (h @ [ [] ]) (length h) ''dataset'' (Ref parent)) (length h) ''indices'' indices"
  from assms have s: "s = length h" and i: "Subset_init (h @ [ [] ]) (length h) parent indices = Inr h'"
    by (auto simp: new_Subset_def split: sum.splits)
  from Subset_init_result[OF i] obtain t c where
    t: "getattr ?h2 parent ''transform'' = Inr t" and
    c: "getattr (setattr ?h2 (length h) ''transform'' t) parent ''classes'' = Inr c" and
    h': "h' = setattr (setattr ?h2 (length h) ''transform'' t) (length h) ''classes'' c"
    by blast
  have ne: "parent \<noteq> length h"
  proof
    assume "parent = length h"
    with t show False
      by (simp add: getattr_def setattr_def update_conv')
  qed
  from t have "parent < length ?h2" by (rule getattr_Inr_valid)
  then have lt: "parent < length h" using ne by (simp add: length_setattr)
  from t ne lt have t0: "getattr h parent ''transform'' = Inr t"
    by (simp add: getattr_setattr_other getattr_alloc)
  from c ne lt have c0: "getattr h parent ''classes'' = Inr c"
    by (simp add: getattr_setattr_other getattr_alloc)
  from s lt t0 c0 h' show ?thesis by simp
qed

text \<open>
  Claim C9. A Subset takes snapshot references to the parent's \<open>transform\<close> and
  \<open>classes\<close> when it is constructed: its two attributes hold the references the parent
  held at that moment. Assigning a new transform to the parent afterwards changes the
  parent's attribute and leaves the Subset's as it was; the \<open>classes\<close> attribute stays
  the same reference on the parent and on the Subset.
\<close>

theorem Subset_snapshot:
  assumes "new_Subset h parent indices = Inr (s, h')"
  shows "s \<noteq> parent
    \<and> (\<exists>t c. getattr h parent ''transform'' = Inr t \<and> getattr h parent ''classes'' = Inr c)
    \<and> getattr h' s ''dataset'' = Inr (Ref parent)
    \<and> getattr h' s ''transform'' = getattr h parent ''transform''
    \<and> getattr h' s ''classes'' = getattr h parent ''classes''
    \<and> getattr h' parent ''transform'' = getattr h parent ''transform''
    \<and> getattr h' parent ''classes'' = getattr h parent ''classes''
    \<and> getattr (setattr h' parent ''transform'' t') parent ''transform'' = Inr t'
    \<and> getattr (setattr h' parent ''transform'' t') s ''transform'' = getattr h parent ''transform''
    \<and> getattr (setattr h' parent ''transform'' t') s ''classes''
        = getattr (setattr h' parent ''transform'' t') parent ''classes''"
proof -
  from new_Subset_result[OF assms] obtain t c where
    s: "s = length h" and lt: "parent < length h" and
    t: "getattr h parent ''transform'' = Inr t" and
    c: "getattr h parent ''classes'' = Inr c" and
    h': "h' = setattr (setattr (setattr (setattr (h @ [ [] ]) s ''dataset'' (Ref parent))
                     s ''indices'' indices) s ''transform'' t) s ''classes'' c"
    by blast
  have ne: "s \<noteq> parent" using s lt by simp
  have len: "length h' = Suc (length h)" by (simp add: h' length_setattr)
  have sl: "s < Suc (length h)" using s by simp
  have par: "\<And>a. getattr h' parent a = getattr h parent a"
    using ne lt by (simp add: h' getattr_setattr_other getattr_alloc)
  have st: "getattr h' s ''transform'' = Inr t"
    using sl by (simp add: h' getattr_setattr_other getattr_setattr_same length_setattr)
  have sc: "getattr h' s ''classes'' = Inr c"
    using sl by (simp add: h' getattr_setattr_same length_setattr)
  have sd: "getattr h' s ''dataset'' = Inr (Ref parent)"
    using sl by (simp add: h' getattr_setattr_other getattr_setattr_same length_setattr)
  have m1: "getattr (setattr h' parent ''transform'' t') parent ''transform'' = Inr t'"
    using lt len by (simp add: getattr_setattr_same)
  have m2: "\<And>a. getattr (setattr h' parent ''transform'' t') s a = getattr h' s a"
    using ne by (simp add: getattr_setattr_other)
  have m3: "getattr (setattr h' parent ''transform'' t') parent ''classes'' = getattr h' parent ''classes''"
    by (simp add: getattr_setattr_other)
  show ?thesis
    using ne t c sd st sc par m1 m2 m3 by simp
qed

theorem Subset_snapshot_witness:
  "new_Subset demo_heap 2 (Indices [0, 1, 2])
     = Inr (4, demo_heap @ [ [(''dataset'', Ref 2), (''indices'', Indices [0, 1, 2]),
                             (''transform'', Ref 0), (''classes'', Ref 1)] ])
   \<and> getattr (setattr (demo_heap @ [ [(''dataset'', Ref 2), (''indices'', Indices [0, 1, 2]),
                             (''transform'', Ref 0), (''classes'', Ref 1)] ]) 2 ''transform'' (Ref 3))
        4 ''transform'' = Inr (Ref 0)
   \<and> getattr (setattr (demo_heap @ [ [(''dataset'', Ref 2), (''indices'', Indices [0, 1, 2]),
                             (''transform'', Ref 0), (''classes'', Ref 1)] ]) 2 ''transform'' (Ref 3))
        2 ''transform'' = Inr (Ref 3)
   \<and> getattr (setattr (demo_heap @ [ [(''dataset'', Ref 2), (''indices'', Indices [0, 1, 2]),
                             (''transform'', Ref 0), (''classes'', Ref 1)] ]) 2 ''transform'' (Ref 3))
        4 ''classes'' = Inr (Ref 1)
   \<and> getattr (setattr (demo_heap @ [ [(''dataset'', Ref 2), (''indices'', Indices [0, 1, 2]),
                             (''transform'', Ref 0), (''classes'', Ref 1)] ]) 2 ''transform'' (Ref 3))
        2 ''classes'' = Inr (Ref 1)"
proof -
  have n: "new_Subset demo_heap 2 (Indices [0, 1, 2])
     = Inr (4, demo_heap @ [ [(''dataset'', Ref 2), (''indices'', Indices [0, 1, 2]),
                             (''transform'', Ref 0), (''classes'', Ref 1)] ])"
    by code_simp
  have p: "getattr demo_heap 2 ''transform'' = Inr (Ref 0)" "getattr demo_heap 2 ''classes'' = Inr (Ref 1)"
    by code_simp+
  have q: "getattr (setattr (demo_heap @ [ [(''dataset'', Ref 2), (''indices'', Indices [0, 1, 2]),
                             (''transform'', Ref 0), (''classes'', Ref 1)] ]) 2 ''transform'' (Ref 3))
        2 ''classes'' = Inr (Ref 1)"
    by code_simp
  from Subset_snapshot[OF n, of "Ref 3"] p q n show ?thesis by simp
qed

subsection \<open>What construct\_dataloader and \_build\_datasets return\<close>

lemma DataLoader_Inr:
  "DataLoader d bs smp dl nw pm pw = Inr l \<Longrightarrow>
   0 < bs \<and> l = \<lparr> dl_dataset = d, dl_batch_size = bs, dl_sampler = smp, dl_drop_last = dl,
                  dl_num_workers = nw, dl_pin_memory = pm, dl_persistent_workers = pw \<rparr>"
  by (auto simp: DataLoader_def split: if_splits)

lemma new_validloaders_Inr:
  "new_validloaders env cfg impl nw vs = Inr vls \<Longrightarrow>
   list_all2 (\<lambda>kv kl. fst kl = fst kv
       \<and> 0 < min (data_batch_size cfg) (int (len (disk_len env) (snd kv)))
       \<and> snd kl = \<lparr> dl_dataset = snd kv,
                     dl_batch_size = min (data_batch_size cfg) (int (len (disk_len env) (snd kv))),
                     dl_sampler = SequentialSampler (snd kv), dl_drop_last = True,
                     dl_num_workers = nw, dl_pin_memory = impl_pin_memory impl,
                     dl_persistent_workers = False \<rparr>) vs vls"
proof (induction vs arbitrary: vls)
  case Nil
  then show ?case by simp
next
  case (Cons kv vs)
  from Cons.prems obtain l ls where
    l: "DataLoader (snd kv) (min (data_batch_size cfg) (int (len (disk_len env) (snd kv))))
          (SequentialSampler (snd kv)) True nw (impl_pin_memory impl) False = Inr l" and
    ls: "new_validloaders env cfg impl nw vs = Inr ls" and
    vls: "vls = (fst kv, l) # ls"
    by (auto split: sum.splits)
  from DataLoader_Inr[OF l] Cons.IH[OF ls] vls show ?case by simp
qed

lemma construct_dataloader_Inr:
  assumes "construct_dataloader env cfg impl hyp dryrun = Inr (trainloader, validloaders)"
  shows "\<exists>trainset0 validsets0 trainset validsets smp.
      build_datasets env cfg (\<not> impl_setup_dist impl) = Inr (trainset0, validsets0)
    \<and> wrap_caching cfg impl
          (wrap_dryrun env cfg dryrun (wrap_lmdb env cfg trainset0),
           map (\<lambda>kv. (fst kv, wrap_dryrun env cfg dryrun (snd kv))) validsets0)
        = Inr (trainset, validsets)
    \<and> new_train_sampler env impl hyp trainset = Inr smp
    \<and> DataLoader trainset (min (data_batch_size cfg) (int (len (disk_len env) trainset)))
          smp True (get_num_workers env impl) (impl_pin_memory impl)
          (if 0 < get_num_workers env impl then impl_persistent_workers impl else False) = Inr trainloader
    \<and> new_validloaders env cfg impl (get_num_workers env impl) validsets = Inr validloaders"
proof (cases "build_datasets env cfg (\<not> impl_setup_dist impl)")
  case (Inl e)
  with assms show ?thesis by (simp add: construct_dataloader_def)
next
  case b: (Inr built)
  show ?thesis
  proof (cases "wrap_caching cfg impl
          (wrap_dryrun env cfg dryrun (wrap_lmdb env cfg (fst built)),
           map (\<lambda>kv. (fst kv, wrap_dryrun env cfg dryrun (snd kv))) (snd built))")
    case (Inl e)
    with assms b show ?thesis by (simp add: construct_dataloader_def)
  next
    case w: (Inr wrapped)
    show ?thesis
    proof (cases "new_train_sampler env impl hyp (fst wrapped)")
      case (Inl e)
      with assms b w show ?thesis by (simp add: construct_dataloader_def Let_def)
    next
      case s: (Inr smp)
      show ?thesis
      proof (cases "DataLoader (fst wrapped)
                (min (data_batch_size cfg) (int (len (disk_len env) (fst wrapped))))
                smp True (get_num_workers env impl) (impl_pin_memory impl)
                (if 0 < get_num_workers env impl then impl_persistent_workers impl else False)")
        case (Inl e)
        with assms b w s show ?thesis by (simp add: construct_dataloader_def Let_def)
      next
        case d: (Inr l)
        show ?thesis
        proof (cases "new_validloaders env cfg impl (get_num_workers env impl) (snd wrapped)")
          case (Inl e)
          with assms b w s d show ?thesis by (simp add: construct_dataloader_def Let_def)
        next
          case v: (Inr ls)
          from assms b w s d v have "trainloader = l" "validloaders = ls"
            by (simp_all add: construct_dataloader_def Let_def)
          with b w s d v show ?thesis
            by (cases built, cases wrapped) auto
        qed
      qed
    qed
  qed
qed

lemma build_datasets_Inr:
  assumes "build_datasets env cfg cd = Inr (trainset, validsets)"
  shows "\<exists>tv ms tfs.
      select_dataset (cfg\<lparr> data_path := expanduser env (data_path cfg) \<rparr>) cd = Inr tv
    \<and> resolve_meanstd env (cfg\<lparr> data_path := expanduser env (data_path cfg) \<rparr>) (fst tv) = Inr ms
    \<and> parse_data_augmentations (transforms env)
          (cfg\<lparr> data_path := expanduser env (data_path cfg) \<rparr>) False = Inr tfs
    \<and> extra_validsets (cfg\<lparr> data_path := expanduser env (data_path cfg) \<rparr>) cd (Some (snd tfs))
          (data_extra_validation cfg)
          [(data_name cfg, set_transform (Some (snd tfs)) (snd tv))] = Inr validsets
    \<and> trainset = reduce_size env (cfg\<lparr> data_path := expanduser env (data_path cfg) \<rparr>)
                     (set_transform (Some (fst tfs)) (fst tv))"
proof -
  let ?cfg = "cfg\<lparr> data_path := expanduser env (data_path cfg) \<rparr>"
  show ?thesis
  proof (cases "select_dataset ?cfg cd")
    case (Inl e)
    with assms show ?thesis by (simp add: build_datasets_def Let_def)
  next
    case s: (Inr tv)
    show ?thesis
    proof (cases "resolve_meanstd env ?cfg (fst tv)")
      case (Inl e)
      with assms s show ?thesis by (simp add: build_datasets_def Let_def)
    next
      case m: (Inr ms)
      show ?thesis
      proof (cases "parse_data_augmentations (transforms env) ?cfg False")
        case (Inl e)
        with assms s m show ?thesis by (simp add: build_datasets_def Let_def)
      next
        case p: (Inr tfs)
        show ?thesis
        proof (cases "extra_validsets ?cfg cd (Some (snd tfs)) (data_extra_validation cfg)
                        [(data_name cfg, set_transform (Some (snd tfs)) (snd tv))]")
          case (Inl e)
          with assms s m p show ?thesis by (simp add: build_datasets_def Let_def)
        next
          case x: (Inr vs)
          from assms s m p x have
            "trainset = reduce_size env ?cfg (set_transform (Some (fst tfs)) (fst tv))"
            "validsets = vs"
            by (simp_all add: build_datasets_def Let_def)
          with s m p x show ?thesis by blast
        qed
      qed
    qed
  qed
qed

subsection \<open>Download permission\<close>

lemma set_transform_download [simp]:
  "download_of (set_transform t d) = download_of d"
  "class_name (set_transform t d) = class_name d"
  by (cases d; simp)+

lemma set_classes_download [simp]:
  "download_of (set_classes t d) = download_of d"
  "class_name (set_classes t d) = class_name d"
  by (cases d; simp)+

lemma Subset_download [simp]:
  "download_of (Subset d idx) = download_of d"
  "class_name (Subset d idx) = class_name d"
  by (simp_all add: Subset_def)

lemma select_dataset_download:
  assumes "select_dataset cfg cd = Inr tv"
  shows "download_as_granted cd (fst tv) \<and> download_as_granted cd (snd tv)
       \<and> class_name (fst tv) = data_name cfg \<and> class_name (snd tv) = data_name cfg"
proof -
  consider "data_name cfg = ''CIFAR10''" | "data_name cfg = ''MNIST''" | "data_name cfg = ''EMNIST''"
    | "data_name cfg = ''SVHN''" | "data_name cfg = ''CINIC10''" | "data_name cfg = ''CIFAR100''"
    | "data_name cfg = ''ImageNet''" | "data_name cfg = ''TinyImageNet''"
    | "data_name cfg \<notin> set [''CIFAR10'', ''MNIST'', ''EMNIST'', ''SVHN'', ''CINIC10'', ''CIFAR100'',
         ''ImageNet'', ''TinyImageNet'']"
    by auto
  then show ?thesis
  proof cases
    case 1
    with assms have "tv = (Opened ''CIFAR10'' [(''root'', VStr (data_path cfg)), (''train'', VBool True), (''download'', VBool cd)]
               (Some ToTensor) (Native ''CIFAR10''),
             Opened ''CIFAR10'' [(''root'', VStr (data_path cfg)), (''train'', VBool False), (''download'', VBool cd)]
               None (Native ''CIFAR10''))"
      by (simp add: select_dataset_def Let_def)
    with 1 show ?thesis by simp
  next
    case 2
    with assms show ?thesis by (auto simp add: select_dataset_def Let_def)
  next
    case 3
    with assms show ?thesis by (auto simp add: select_dataset_def Let_def)
  next
    case 4
    with assms show ?thesis by (auto simp add: select_dataset_def Let_def)
  next
    case 5
    with assms show ?thesis by (auto simp add: select_dataset_def Let_def)
  next
    case 6
    with assms show ?thesis by (auto simp add: select_dataset_def Let_def)
  next
    case 7
    with assms show ?thesis by (auto simp add: select_dataset_def Let_def)
  next
    case 8
    with assms show ?thesis by (auto simp add: select_dataset_def Let_def)
  next
    case 9
    with assms show ?thesis by (simp add: select_dataset_def Let_def)
  qed
qed

lemma list_all_update:
  "P (snd (k, v)) \<Longrightarrow> list_all (\<lambda>kv. P (snd kv)) al \<Longrightarrow>
   list_all (\<lambda>kv. P (snd kv)) (AList.update k v al)"
  by (induction al) auto

lemma extra_validset_download:
  "extra_validset cfg cd vt n = Inr d \<Longrightarrow> download_as_granted cd d"
  by (auto simp: extra_validset_def Let_def split: if_splits)

lemma extra_validsets_download:
  "extra_validsets cfg cd vt names vs = Inr r \<Longrightarrow>
   list_all (\<lambda>kv. download_as_granted cd (snd kv)) vs \<Longrightarrow>
   list_all (\<lambda>kv. download_as_granted cd (snd kv)) r"
proof (induction names arbitrary: vs)
  case Nil
  then show ?case by simp
next
  case (Cons n names)
  from Cons.prems(1) obtain d where
    d: "extra_validset cfg cd vt n = Inr d" and
    r: "extra_validsets cfg cd vt names (AList.update n d vs) = Inr r"
    by (auto split: sum.splits)
  have g: "download_as_granted cd (snd (n, d))"
    using extra_validset_download[OF d] by simp
  have "list_all (\<lambda>kv. download_as_granted cd (snd kv)) (AList.update n d vs)"
    using g Cons.prems(2) by (rule list_all_update)
  with r show ?case by (rule Cons.IH)
qed

lemma reduce_size_download [simp]:
  "download_of (reduce_size env cfg d) = download_of d"
  "class_name (reduce_size env cfg d) = class_name d"
  by (simp_all add: reduce_size_def Let_def)

lemma build_datasets_download:
  assumes "build_datasets env cfg cd = Inr (trainset, validsets)"
  shows "download_as_granted cd trainset
       \<and> list_all (\<lambda>kv. download_as_granted cd (snd kv)) validsets
       \<and> class_name trainset = data_name cfg"
proof -
  let ?cfg = "cfg\<lparr> data_path := expanduser env (data_path cfg) \<rparr>"
  from build_datasets_Inr[OF assms] obtain tv tfs where
    sel: "select_dataset ?cfg cd = Inr tv" and
    ext: "extra_validsets ?cfg cd (Some (snd tfs)) (data_extra_validation cfg)
            [(data_name cfg, set_transform (Some (snd tfs)) (snd tv))] = Inr validsets" and
    tr: "trainset = reduce_size env ?cfg (set_transform (Some (fst tfs)) (fst tv))"
    by blast
  from select_dataset_download[OF sel] have
    a: "download_as_granted cd (fst tv)" and b: "download_as_granted cd (snd tv)"
    and c: "class_name (fst tv) = data_name cfg"
    by simp_all
  have "list_all (\<lambda>kv. download_as_granted cd (snd kv))
          [(data_name cfg, set_transform (Some (snd tfs)) (snd tv))]"
    using b by simp
  with ext have "list_all (\<lambda>kv. download_as_granted cd (snd kv)) validsets"
    by (rule extra_validsets_download)
  with a c tr show ?thesis by simp
qed

lemma wrap_download [simp]:
  "download_of (wrap_lmdb env cfg d) = download_of d"
  "class_name (wrap_lmdb env cfg d) = class_name d"
  "download_of (wrap_dryrun env cfg dryrun d) = download_of d"
  "class_name (wrap_dryrun env cfg dryrun d) = class_name d"
  by (simp_all add: wrap_lmdb_def wrap_dryrun_def)

lemma cached_validsets_empty:
  "cached_validsets None nw pm vs = Inr r \<Longrightarrow> vs = [] \<and> r = []"
  by (cases vs) simp_all

lemma wrap_caching_download:
  assumes "wrap_caching cfg impl (t0, vs0) = Inr (t, vs)"
  shows "download_of t = download_of t0 \<and> class_name t = class_name t0 \<and> vs = vs0"
  using assms
  by (auto simp: wrap_caching_def split: if_splits sum.splits dest: cached_validsets_empty)

text \<open>
  Claim C10, as amended. \<open>construct_dataloader\<close> passes \<open>can_download\<close> as the negation of
  the distributed flag, and every dataset whose constructor is given a download argument
  (train, validation and extra validation) is opened with exactly that value. The
  ImageNet train and validation sets are the exception: they are opened with no
  download argument at all, whatever the flag.
\<close>

theorem download_permission:
  assumes "construct_dataloader env cfg impl hyp dryrun = Inr (trainloader, validloaders)"
  shows "class_name (dl_dataset trainloader) = data_name cfg
    \<and> download_of (dl_dataset trainloader)
        = (if data_name cfg = ''ImageNet'' then None else Some (VBool (\<not> impl_setup_dist impl)))
    \<and> list_all (\<lambda>kl. download_of (dl_dataset (snd kl))
        = (if class_name (dl_dataset (snd kl)) = ''ImageNet'' then None
           else Some (VBool (\<not> impl_setup_dist impl)))) validloaders"
proof -
  from construct_dataloader_Inr[OF assms] obtain trainset0 validsets0 trainset validsets smp where
    b: "build_datasets env cfg (\<not> impl_setup_dist impl) = Inr (trainset0, validsets0)" and
    w: "wrap_caching cfg impl
          (wrap_dryrun env cfg dryrun (wrap_lmdb env cfg trainset0),
           map (\<lambda>kv. (fst kv, wrap_dryrun env cfg dryrun (snd kv))) validsets0)
        = Inr (trainset, validsets)" and
    d: "DataLoader trainset (min (data_batch_size cfg) (int (len (disk_len env) trainset)))
          smp True (get_num_workers env impl) (impl_pin_memory impl)
          (if 0 < get_num_workers env impl then impl_persistent_workers impl else False) = Inr trainloader" and
    v: "new_validloaders env cfg impl (get_num_workers env impl) validsets = Inr validloaders"
    by blast
  from build_datasets_download[OF b] have
    t0: "download_as_granted (\<not> impl_setup_dist impl) trainset0" and
    c0: "class_name trainset0 = data_name cfg" and
    v0: "list_all (\<lambda>kv. download_as_granted (\<not> impl_setup_dist impl) (snd kv)) validsets0"
    by simp_all
  from wrap_caching_download[OF w] have
    t: "download_of trainset = download_of trainset0" "class_name trainset = class_name trainset0" and
    vs: "validsets = map (\<lambda>kv. (fst kv, wrap_dryrun env cfg dryrun (snd kv))) validsets0"
    by simp_all
  from DataLoader_Inr[OF d] have dt: "dl_dataset trainloader = trainset" by simp
  have vok: "list_all (\<lambda>kv. download_as_granted (\<not> impl_setup_dist impl) (snd kv)) validsets"
    using v0 unfolding vs by (simp add: list_all_iff)
  have "list_all (\<lambda>kl. download_as_granted (\<not> impl_setup_dist impl) (dl_dataset (snd kl))) validloaders"
    using new_validloaders_Inr[OF v] vok
    by (induction validsets validloaders rule: list_all2_induct) auto
  with t0 c0 t dt show ?thesis by simp
qed

theorem download_permission_witness:
  "\<not> isl (construct_dataloader demo_env demo_cfg demo_impl demo_hyp False)
   \<and> download_of (dl_dataset (fst (projr (construct_dataloader demo_env demo_cfg demo_impl demo_hyp False))))
       = Some (VBool True)
   \<and> \<not> isl (construct_dataloader demo_dist_env demo_cfg
               (demo_impl\<lparr>impl_setup_dist := True\<rparr>) demo_hyp False)
   \<and> download_of (dl_dataset (fst (projr (construct_dataloader demo_dist_env demo_cfg
               (demo_impl\<lparr>impl_setup_dist := True\<rparr>) demo_hyp False))))
       = Some (VBool False)"
proof -
  have a: "\<not> isl (construct_dataloader demo_env demo_cfg demo_impl demo_hyp False)"
    by code_simp
  then obtain t1 v1 where
    r1: "construct_dataloader demo_env demo_cfg demo_impl demo_hyp False = Inr (t1, v1)"
    by (cases "construct_dataloader demo_env demo_cfg demo_impl demo_hyp False") auto
  have b: "\<not> isl (construct_dataloader demo_dist_env demo_cfg
               (demo_impl\<lparr>impl_setup_dist := True\<rparr>) demo_hyp False)"
    by code_simp
  then obtain t2 v2 where
    r2: "construct_dataloader demo_dist_env demo_cfg
               (demo_impl\<lparr>impl_setup_dist := True\<rparr>) demo_hyp False = Inr (t2, v2)"
    by (cases "construct_dataloader demo_dist_env demo_cfg
               (demo_impl\<lparr>impl_setup_dist := True\<rparr>) demo_hyp False") auto
  have n: "data_name demo_cfg \<noteq> ''ImageNet''" "\<not> impl_setup_dist demo_impl"
    by (simp_all add: demo_cfg_def demo_impl_def)
  from download_permission[OF r1] download_permission[OF r2] n a b show ?thesis
    by (simp add: r1 r2)
qed

text \<open>
  Claim C10 as stated fails for ImageNet: with the distributed flag unset the train set
  is opened without a download argument, so download is not permitted.
\<close>

theorem download_permission_counterexample:
  "map_sum id (download_of \<circ> dl_dataset \<circ> fst)
     (construct_dataloader demo_env (demo_cfg\<lparr>data_name := ''ImageNet''\<rparr>) demo_impl demo_hyp False)
     = Inr None
   \<and> impl_setup_dist demo_impl = False"
  by code_simp

subsection \<open>The order of the wrappers\<close>

lemma select_dataset_opened:
  assumes "select_dataset cfg cd = Inr tv"
  shows "\<exists>c kw t cl. fst tv = Opened c kw t cl"
proof -
  consider "data_name cfg = ''CIFAR10''" | "data_name cfg = ''MNIST''" | "data_name cfg = ''EMNIST''"
    | "data_name cfg = ''SVHN''" | "data_name cfg = ''CINIC10''" | "data_name cfg = ''CIFAR100''"
    | "data_name cfg = ''ImageNet''" | "data_name cfg = ''TinyImageNet''"
    | "data_name cfg \<notin> set [''CIFAR10'', ''MNIST'', ''EMNIST'', ''SVHN'', ''CINIC10'', ''CIFAR100'',
         ''ImageNet'', ''TinyImageNet'']"
    by auto
  then show ?thesis
  proof cases
    case 1
    with assms show ?thesis by (auto simp add: select_dataset_def Let_def)
  next
    case 2
    with assms show ?thesis by (auto simp add: select_dataset_def Let_def)
  next
    case 3
    with assms show ?thesis by (auto simp add: select_dataset_def Let_def)
  next
    case 4
    with assms show ?thesis by (auto simp add: select_dataset_def Let_def)
  next
    case 5
    with assms show ?thesis by (auto simp add: select_dataset_def Let_def)
  next
    case 6
    with assms show ?thesis by (auto simp add: select_dataset_def Let_def)
  next
    case 7
    with assms show ?thesis by (auto simp add: select_dataset_def Let_def)
  next
    case 8
    with assms show ?thesis by (auto simp add: select_dataset_def Let_def)
  next
    case 9
    with assms show ?thesis by (simp add: select_dataset_def Let_def)
  qed
qed

lemma base_of_set_transform:
  "\<exists>c kw t0 cl. d = Opened c kw t0 cl \<Longrightarrow> base_of (set_transform t d) = set_transform t d"
  by auto

lemma base_of_Subset [simp]: "base_of (Subset d idx) = base_of d"
  by (simp add: Subset_def)

lemma base_of_wrap [simp]:
  "base_of (wrap_lmdb env cfg d) = base_of d"
  "base_of (wrap_dryrun env cfg dryrun d) = base_of d"
  by (simp_all add: wrap_lmdb_def wrap_dryrun_def)

lemma reduce_size_path:
  "reduce_size env (cfg\<lparr> data_path := p \<rparr>) d = reduce_size env cfg d"
  by (simp add: reduce_size_def)

lemma wrap_caching_train:
  assumes "wrap_caching cfg impl (t0, vs0) = Inr (t, vs)"
  shows "t = (if data_caching cfg
              then CachedDataset t0 (impl_threads impl) (impl_pin_memory impl) else t0)"
  using assms by (auto simp: wrap_caching_def split: if_splits sum.splits)

text \<open>
  Claim C1, as amended. For every configuration with caching disabled on which
  \<open>construct_dataloader\<close> returns, the layers of the train set are applied in one fixed
  order, whichever of them are enabled: the size-reduction Subset first (inside
  \<open>_build_datasets\<close>, on the opened dataset, when the configured size is smaller than
  its length), then the durable-index (LMDB) wrapper, then the dry-run truncation.
  Nothing is said of the cache layer.
\<close>

theorem wrapper_order:
  assumes "construct_dataloader env cfg impl hyp dryrun = Inr (trainloader, validloaders)"
    and "\<not> data_caching cfg"
  shows "dl_dataset trainloader =
     (let base = base_of (dl_dataset trainloader);
          sized = (if data_size cfg < int (len (disk_len env) base)
                   then Subset base
                          (slice_to
                             (randperm env (len (disk_len env) base)
                                (if data_deterministic_subsets cfg then manual_seed 89
                                 else default_generator (rng_state env)))
                             (data_size cfg))
                   else base);
          stored = (if data_db_name cfg = ''LMDB''
                    then LMDBDataset sized (data_db_name cfg) ''train''
                           (\<not> dist_is_initialized env \<or> dist_get_rank env = 0)
                    else sized)
      in if dryrun
         then Subset stored (arange (data_batch_size cfg * num_machines env))
         else stored)"
proof -
  let ?cfg = "cfg\<lparr> data_path := expanduser env (data_path cfg) \<rparr>"
  from construct_dataloader_Inr[OF assms(1)] obtain trainset0 validsets0 trainset validsets smp where
    b: "build_datasets env cfg (\<not> impl_setup_dist impl) = Inr (trainset0, validsets0)" and
    w: "wrap_caching cfg impl
          (wrap_dryrun env cfg dryrun (wrap_lmdb env cfg trainset0),
           map (\<lambda>kv. (fst kv, wrap_dryrun env cfg dryrun (snd kv))) validsets0)
        = Inr (trainset, validsets)" and
    d: "DataLoader trainset (min (data_batch_size cfg) (int (len (disk_len env) trainset)))
          smp True (get_num_workers env impl) (impl_pin_memory impl)
          (if 0 < get_num_workers env impl then impl_persistent_workers impl else False) = Inr trainloader"
    by blast
  from build_datasets_Inr[OF b] obtain tv tfs where
    sel: "select_dataset ?cfg (\<not> impl_setup_dist impl) = Inr tv" and
    tr: "trainset0 = reduce_size env ?cfg (set_transform (Some (fst tfs)) (fst tv))"
    by auto
  define base where "base = set_transform (Some (fst tfs)) (fst tv)"
  have bb: "base_of base = base"
    unfolding base_def using select_dataset_opened[OF sel] by (rule base_of_set_transform)
  have t0: "trainset0 = reduce_size env cfg base"
    using tr by (simp add: base_def reduce_size_path)
  have br: "base_of (reduce_size env cfg base) = base"
    using bb by (simp add: reduce_size_def Let_def)
  have t: "trainset = wrap_dryrun env cfg dryrun (wrap_lmdb env cfg trainset0)"
    using wrap_caching_train[OF w] assms(2) by simp
  from DataLoader_Inr[OF d] have dt: "dl_dataset trainloader = trainset" by simp
  have bt: "base_of trainset = base"
    using br by (simp add: t t0)
  show ?thesis
    unfolding dt bt
    by (simp add: t t0 reduce_size_def wrap_lmdb_def wrap_dryrun_def Let_def)
qed

theorem wrapper_order_witness:
  "\<not> isl (construct_dataloader demo_env
            (demo_cfg\<lparr>data_size := 3, data_batch_size := 2, data_db_name := ''LMDB''\<rparr>)
            demo_impl demo_hyp True)
   \<and> \<not> data_caching (demo_cfg\<lparr>data_size := 3, data_batch_size := 2, data_db_name := ''LMDB''\<rparr>)
   \<and> dl_dataset (fst (projr (construct_dataloader demo_env
          (demo_cfg\<lparr>data_size := 3, data_batch_size := 2, data_db_name := ''LMDB''\<rparr>)
          demo_impl demo_hyp True)))
     = Subset (LMDBDataset (Subset demo_base [104, 103, 102]) ''LMDB'' ''train'' True) [0, 1]"
proof -
  let ?cfg = "demo_cfg\<lparr>data_size := 3, data_batch_size := 2, data_db_name := ''LMDB''\<rparr>"
  let ?R = "construct_dataloader demo_env ?cfg demo_impl demo_hyp True"
  have a: "\<not> isl ?R" by code_simp
  then obtain t v where r: "?R = Inr (t, v)" by (cases ?R) auto
  have "base_of (dl_dataset (fst (projr ?R))) = demo_base" by code_simp
  then have b: "base_of (dl_dataset t) = demo_base" by (simp add: r)
  have l: "len (disk_len demo_env) demo_base = 105" by code_simp
  have p: "slice_to (randperm demo_env 105 (manual_seed 89)) 3 = [104, 103, 102]" by code_simp
  have m: "arange (2 * num_machines demo_env) = [0, 1]" by code_simp
  have c: "data_size ?cfg = 3" "data_db_name ?cfg = ''LMDB''" "data_deterministic_subsets ?cfg"
    "data_batch_size ?cfg = 2" "\<not> dist_is_initialized demo_env"
    by (simp_all add: demo_cfg_def demo_env_def)
  have n: "\<not> data_caching ?cfg" by (simp add: demo_cfg_def)
  from wrapper_order[OF r n] have "dl_dataset t
     = Subset (LMDBDataset (Subset demo_base [104, 103, 102]) ''LMDB'' ''train'' True) [0, 1]"
    unfolding b by (simp add: l p m c Let_def)
  with a n r show ?thesis by simp
qed

text \<open>
  Claim C1 as stated fails: with LMDB storage and a configured size of 3 on a train set
  of 105 samples, the LMDB wrapper is built around the size-reduction Subset, which was
  formed first; the Subset is not formed after the wrapping. With caching enabled as
  well, the same configuration gives no layers at all: \<open>construct_dataloader\<close> raises.
\<close>

theorem wrapper_order_counterexample:
  "map_sum id (dl_dataset \<circ> fst)
     (construct_dataloader demo_env (demo_cfg\<lparr>data_size := 3, data_db_name := ''LMDB''\<rparr>)
        demo_impl demo_hyp False)
     = Inr (LMDBDataset (Subset demo_base [104, 103, 102]) ''LMDB'' ''train'' True)
   \<and> LMDBDataset (Subset demo_base [104, 103, 102]) ''LMDB'' ''train'' True
     \<noteq> Subset (LMDBDataset demo_base ''LMDB'' ''train'' True) [104, 103, 102]
   \<and> construct_dataloader demo_env
        (demo_cfg\<lparr>data_size := 3, data_caching := True, data_db_name := ''LMDB''\<rparr>)
        demo_impl demo_hyp False
     = Inl (NameError ''validset'')"
  by code_simp

subsection \<open>Batches per pass\<close>

lemma new_train_sampler_len:
  assumes "new_train_sampler env impl hyp trainset = Inr smp"
  shows "sampler_len env smp =
     (if impl_setup_dist impl
      then (len (disk_len env) trainset + dist_get_world_size env - 1) div dist_get_world_size env
      else len (disk_len env) trainset)"
  using assms
  by (auto simp: new_train_sampler_def new_DistributedSampler_def new_RandomSampler_def
           split: if_splits)

lemma sequential_indices:
  "map (sampler_index env (SequentialSampler d)) [0..<m] = [0..<m]"
  by (induction m) simp_all

lemma fetch_all_Inr:
  "fetch_all env d idxs = Inr () \<longleftrightarrow> list_all (\<lambda>i. getitem env d i = Inr ()) idxs"
  by (induction idxs) (auto split: sum.splits)

text \<open>
  Claim C6, as amended. Whenever \<open>construct_dataloader\<close> returns, the train loader and
  every validation loader have the batch size min(configured batch size, dataset
  length), which is positive, and drop the trailing partial batch. One pass reads the
  items of the full batches only, in the order of the sampler. If every one of them can
  be read, a pass over a validation loader, or over the train loader under the
  sequential or the random sampling strategy, yields exactly floor(dataset length /
  batch size) batches; under the distributed strategy the train loader of one process
  reads one shard of ceil(dataset length / world size) indices and yields
  floor(shard size / batch size) batches. If one of them cannot be read (an index of a
  dry-run or size-reduction Subset outside the dataset it wraps, or an item whose
  transform raises), the pass raises that item's error and yields no count.
\<close>

theorem batch_counts:
  assumes "construct_dataloader env cfg impl hyp dryrun = Inr (trainloader, validloaders)"
  shows "dl_drop_last trainloader
    \<and> 0 < dl_batch_size trainloader
    \<and> dl_batch_size trainloader
        = min (data_batch_size cfg) (int (len (disk_len env) (dl_dataset trainloader)))
    \<and> (let n = len (disk_len env) (dl_dataset trainloader);
            b = nat (dl_batch_size trainloader);
            k = (if impl_setup_dist impl
                 then ((n + dist_get_world_size env - 1) div dist_get_world_size env) div b
                 else n div b)
        in run_pass env trainloader =
             (case fetch_all env (dl_dataset trainloader)
                     (map (sampler_index env (dl_sampler trainloader)) [0..<k * b]) of
                Inl e \<Rightarrow> Inl e
              | Inr u \<Rightarrow> Inr k))
    \<and> list_all (\<lambda>kl. dl_drop_last (snd kl)
          \<and> 0 < dl_batch_size (snd kl)
          \<and> dl_batch_size (snd kl)
              = min (data_batch_size cfg) (int (len (disk_len env) (dl_dataset (snd kl))))
          \<and> (let n = len (disk_len env) (dl_dataset (snd kl));
                  b = nat (dl_batch_size (snd kl))
              in run_pass env (snd kl) =
                   (case fetch_all env (dl_dataset (snd kl)) [0..<(n div b) * b] of
                      Inl e \<Rightarrow> Inl e
                    | Inr u \<Rightarrow> Inr (n div b))))
        validloaders"
proof -
  from construct_dataloader_Inr[OF assms] obtain trainset validsets smp where
    s: "new_train_sampler env impl hyp trainset = Inr smp" and
    d: "DataLoader trainset (min (data_batch_size cfg) (int (len (disk_len env) trainset)))
          smp True (get_num_workers env impl) (impl_pin_memory impl)
          (if 0 < get_num_workers env impl then impl_persistent_workers impl else False) = Inr trainloader" and
    v: "new_validloaders env cfg impl (get_num_workers env impl) validsets = Inr validloaders"
    by auto
  from DataLoader_Inr[OF d] new_train_sampler_len[OF s] have train:
    "dl_drop_last trainloader" "0 < dl_batch_size trainloader"
    "dl_batch_size trainloader
        = min (data_batch_size cfg) (int (len (disk_len env) (dl_dataset trainloader)))"
    "num_batches env trainloader
        = (if impl_setup_dist impl
           then ((len (disk_len env) (dl_dataset trainloader) + dist_get_world_size env - 1)
                   div dist_get_world_size env) div nat (dl_batch_size trainloader)
           else len (disk_len env) (dl_dataset trainloader) div nat (dl_batch_size trainloader))"
    by (simp_all add: num_batches_def)
  have pass: "let n = len (disk_len env) (dl_dataset trainloader);
            b = nat (dl_batch_size trainloader);
            k = (if impl_setup_dist impl
                 then ((n + dist_get_world_size env - 1) div dist_get_world_size env) div b
                 else n div b)
        in run_pass env trainloader =
             (case fetch_all env (dl_dataset trainloader)
                     (map (sampler_index env (dl_sampler trainloader)) [0..<k * b]) of
                Inl e \<Rightarrow> Inl e
              | Inr u \<Rightarrow> Inr k)"
    using train(1) by (simp add: Let_def run_pass_def pass_indices_def train(4) cong: sum.case_cong)
  have "list_all (\<lambda>kl. dl_drop_last (snd kl)
          \<and> 0 < dl_batch_size (snd kl)
          \<and> dl_batch_size (snd kl)
              = min (data_batch_size cfg) (int (len (disk_len env) (dl_dataset (snd kl))))
          \<and> (let n = len (disk_len env) (dl_dataset (snd kl));
                  b = nat (dl_batch_size (snd kl))
              in run_pass env (snd kl) =
                   (case fetch_all env (dl_dataset (snd kl)) [0..<(n div b) * b] of
                      Inl e \<Rightarrow> Inl e
                    | Inr u \<Rightarrow> Inr (n div b))))
        validloaders"
    using new_validloaders_Inr[OF v]
    by (induction validsets validloaders rule: list_all2_induct)
       (auto simp: Let_def run_pass_def pass_indices_def num_batches_def sequential_indices
             cong: sum.case_cong)
  with train(1-3) pass show ?thesis by simp
qed

theorem batch_counts_witness:
  "\<not> isl (construct_dataloader demo_env demo_cfg demo_impl demo_hyp False)
   \<and> dl_batch_size (fst (projr (construct_dataloader demo_env demo_cfg demo_impl demo_hyp False))) = 32
   \<and> run_pass demo_env (fst (projr (construct_dataloader demo_env demo_cfg demo_impl demo_hyp False)))
       = Inr 3
   \<and> map (run_pass demo_env \<circ> snd)
        (snd (projr (construct_dataloader demo_env demo_cfg demo_impl demo_hyp False)))
       = [Inr 1, Inr 1]"
proof -
  let ?R = "construct_dataloader demo_env demo_cfg demo_impl demo_hyp False"
  have a: "\<not> isl ?R" by code_simp
  then obtain t v where r: "?R = Inr (t, v)" by (cases ?R) auto
  have "len (disk_len demo_env) (dl_dataset (fst (projr ?R))) = 105" by code_simp
  then have l: "len (disk_len demo_env) (dl_dataset t) = 105" by (simp add: r)
  have c: "data_batch_size demo_cfg = 32" "\<not> impl_setup_dist demo_impl"
    by (simp_all add: demo_cfg_def demo_impl_def)
  have "fetch_all demo_env (dl_dataset (fst (projr ?R)))
          (map (sampler_index demo_env (dl_sampler (fst (projr ?R)))) [0..<3 * 32]) = Inr ()"
    by code_simp
  then have f: "fetch_all demo_env (dl_dataset t)
          (map (sampler_index demo_env (dl_sampler t)) [0..<3 * 32]) = Inr ()"
    by (simp add: r)
  have "map (run_pass demo_env \<circ> snd) (snd (projr ?R)) = [Inr 1, Inr 1]" by code_simp
  then have vs: "map (run_pass demo_env \<circ> snd) v = [Inr 1, Inr 1]" by (simp add: r)
  from batch_counts[OF r] have b: "dl_batch_size t = 32"
    by (simp add: l c)
  from batch_counts[OF r] have "run_pass demo_env t = Inr 3"
    using f by (simp add: l c b Let_def)
  with a r vs b show ?thesis by simp
qed

text \<open>
  Claim C6 as stated fails for the distributed strategy: in a group of two processes a
  train set of 105 samples with batch size 32 gives each process a shard of 53 indices,
  and one pass yields 1 batch, not floor(105 / 32) = 3.
\<close>

theorem batch_counts_counterexample:
  "map_sum id (len (disk_len demo_dist_env) \<circ> dl_dataset \<circ> fst)
     (construct_dataloader demo_dist_env demo_cfg (demo_impl\<lparr>impl_setup_dist := True\<rparr>)
        demo_hyp False) = Inr 105
   \<and> map_sum id (dl_batch_size \<circ> fst)
     (construct_dataloader demo_dist_env demo_cfg (demo_impl\<lparr>impl_setup_dist := True\<rparr>)
        demo_hyp False) = Inr 32
   \<and> map_sum id (run_pass demo_dist_env \<circ> fst)
     (construct_dataloader demo_dist_env demo_cfg (demo_impl\<lparr>impl_setup_dist := True\<rparr>)
        demo_hyp False) = Inr (Inr 1)
   \<and> (105 :: nat) div 32 = 3"
  by code_simp

text \<open>
  A pass that cannot deliver its batches: a dry run on a train set reduced to 3 samples
  wraps it in a Subset of 32 indices, and the first item the pass asks for is outside
  the 3 samples; with a batch size of 2 the dry-run Subset holds 2 indices and the pass
  delivers its one batch.
\<close>

lemma dryrun_pass_raises:
  "map_sum id (run_pass demo_env \<circ> fst)
     (construct_dataloader demo_env (demo_cfg\<lparr>data_size := 3\<rparr>) demo_impl demo_hyp True)
     = Inr (Inl IndexError)
   \<and> map_sum id (run_pass demo_env \<circ> fst)
     (construct_dataloader demo_env (demo_cfg\<lparr>data_size := 3, data_batch_size := 2\<rparr>)
        demo_impl demo_hyp True)
     = Inr (Inr 1)"
  by code_simp

subsection \<open>Reproducible subsets\<close>

lemma reduce_size_seeded:
  "data_deterministic_subsets cfg \<Longrightarrow>
   reduce_size (env\<lparr> rng_state := g \<rparr>) cfg trainset = reduce_size env cfg trainset"
  by (simp add: reduce_size_def)

lemma resolve_meanstd_rng:
  "resolve_meanstd (env\<lparr> rng_state := g \<rparr>) cfg trainset = resolve_meanstd env cfg trainset"
  by (simp add: resolve_meanstd_def get_meanstd_def cong: option.case_cong)

lemma build_datasets_seeded:
  "data_deterministic_subsets cfg \<Longrightarrow>
   build_datasets (env\<lparr> rng_state := g \<rparr>) cfg cd = build_datasets env cfg cd"
  by (simp add: build_datasets_def resolve_meanstd_rng reduce_size_seeded reduce_size_path Let_def
        cong: sum.case_cong)

text \<open>
  Claim C8. A run is \<open>_build_datasets\<close> in a process whose default random generator is
  in some state; two independent runs differ in that state only. With
  \<open>deterministic_subsets\<close> set, two runs over the same dataset and configuration give
  the same result, and the size-reduction Subset holds the first \<open>size\<close> indices of the
  permutation of a generator seeded with the constant 89. With it unset the permutation
  is drawn from the default generator in its current state: two runs may differ (states 0
  and 1 of the example generator) and need not (states 0 and 2).
\<close>

theorem seeded_subsets_reproducible:
  "(data_deterministic_subsets cfg \<longrightarrow>
      build_datasets (env\<lparr> rng_state := g1 \<rparr>) cfg cd
        = build_datasets (env\<lparr> rng_state := g2 \<rparr>) cfg cd)
   \<and> (data_deterministic_subsets cfg \<and> data_size cfg < int (len (disk_len env) trainset) \<longrightarrow>
      reduce_size (env\<lparr> rng_state := g1 \<rparr>) cfg trainset
        = Subset trainset
            (slice_to (randperm env (len (disk_len env) trainset) (manual_seed 89)) (data_size cfg)))
   \<and> (\<not> data_deterministic_subsets cfg \<and> data_size cfg < int (len (disk_len env) trainset) \<longrightarrow>
      reduce_size (env\<lparr> rng_state := g1 \<rparr>) cfg trainset
        = Subset trainset
            (slice_to (randperm env (len (disk_len env) trainset) (default_generator g1))
               (data_size cfg)))
   \<and> map_sum id fst (build_datasets (demo_env\<lparr> rng_state := 0 \<rparr>)
          (demo_cfg\<lparr> data_size := 3, data_deterministic_subsets := False \<rparr>) True)
       = Inr (Subset demo_base [0, 1, 2])
   \<and> map_sum id fst (build_datasets (demo_env\<lparr> rng_state := 1 \<rparr>)
          (demo_cfg\<lparr> data_size := 3, data_deterministic_subsets := False \<rparr>) True)
       = Inr (Subset demo_base [104, 103, 102])
   \<and> map_sum id fst (build_datasets (demo_env\<lparr> rng_state := 2 \<rparr>)
          (demo_cfg\<lparr> data_size := 3, data_deterministic_subsets := False \<rparr>) True)
       = Inr (Subset demo_base [0, 1, 2])"
proof -
  have a: "data_deterministic_subsets cfg \<longrightarrow>
      build_datasets (env\<lparr> rng_state := g1 \<rparr>) cfg cd
        = build_datasets (env\<lparr> rng_state := g2 \<rparr>) cfg cd"
    by (simp add: build_datasets_seeded)
  have b: "data_deterministic_subsets cfg \<and> data_size cfg < int (len (disk_len env) trainset) \<longrightarrow>
      reduce_size (env\<lparr> rng_state := g1 \<rparr>) cfg trainset
        = Subset trainset
            (slice_to (randperm env (len (disk_len env) trainset) (manual_seed 89)) (data_size cfg))"
    by (simp add: reduce_size_def)
  have c: "\<not> data_deterministic_subsets cfg \<and> data_size cfg < int (len (disk_len env) trainset) \<longrightarrow>
      reduce_size (env\<lparr> rng_state := g1 \<rparr>) cfg trainset
        = Subset trainset
            (slice_to (randperm env (len (disk_len env) trainset) (default_generator g1))
               (data_size cfg))"
    by (simp add: reduce_size_def)
  have d: "map_sum id fst (build_datasets (demo_env\<lparr> rng_state := 0 \<rparr>)
          (demo_cfg\<lparr> data_size := 3, data_deterministic_subsets := False \<rparr>) True)
       = Inr (Subset demo_base [0, 1, 2])"
    by code_simp
  have e: "map_sum id fst (build_datasets (demo_env\<lparr> rng_state := 1 \<rparr>)
          (demo_cfg\<lparr> data_size := 3, data_deterministic_subsets := False \<rparr>) True)
       = Inr (Subset demo_base [104, 103, 102])"
    by code_simp
  have f: "map_sum id fst (build_datasets (demo_env\<lparr> rng_state := 2 \<rparr>)
          (demo_cfg\<lparr> data_size := 3, data_deterministic_subsets := False \<rparr>) True)
       = Inr (Subset demo_base [0, 1, 2])"
    by code_simp
  from a b c d e f show ?thesis by blast
qed

theorem seeded_subsets_reproducible_witness:
  "map_sum id fst (build_datasets (demo_env\<lparr> rng_state := 0 \<rparr>) (demo_cfg\<lparr> data_size := 3 \<rparr>) True)
     = Inr (Subset demo_base [104, 103, 102])
   \<and> map_sum id fst (build_datasets (demo_env\<lparr> rng_state := 1 \<rparr>) (demo_cfg\<lparr> data_size := 3 \<rparr>) True)
     = Inr (Subset demo_base [104, 103, 102])"
proof -
  have h: "data_deterministic_subsets (demo_cfg\<lparr> data_size := 3 \<rparr>)"
    by (simp add: demo_cfg_def)
  have e: "map_sum id fst (build_datasets (demo_env\<lparr> rng_state := 0 \<rparr>) (demo_cfg\<lparr> data_size := 3 \<rparr>) True)
     = Inr (Subset demo_base [104, 103, 102])"
    by code_simp
  from seeded_subsets_reproducible[where cfg = "demo_cfg\<lparr> data_size := 3 \<rparr>" and env = demo_env
      and ?g1.0 = 0 and ?g2.0 = 1 and cd = True] h
  have "build_datasets (demo_env\<lparr> rng_state := 0 \<rparr>) (demo_cfg\<lparr> data_size := 3 \<rparr>) True
      = build_datasets (demo_env\<lparr> rng_state := 1 \<rparr>) (demo_cfg\<lparr> data_size := 3 \<rparr>) True"
    by blast
  with e show ?thesis by simp
qed

subsection \<open>The statistics of the normalisation step\<close>

text \<open>
  Claim C4. With normalisation enabled the step appended after tensor conversion should
  use the resolved statistics: the configured mean and std when present, otherwise the
  ones computed from the train set. \<open>_build_datasets\<close> resolves them into \<^verbatim>\<open>data_mean\<close> and
  \<^verbatim>\<open>data_std\<close> and never reads the two variables again; \<open>_parse_data_augmentations\<close>
  takes the configuration and builds the step from \<^verbatim>\<open>cfg_data.mean\<close> and \<^verbatim>\<open>cfg_data.std\<close>.
  Without configured statistics and with normalisation enabled: \<open>_build_datasets\<close> raises
  the NameError of \<open>_get_meanstd\<close>; and where the name \<^verbatim>\<open>trainset\<close> is bound, so that the
  resolver returns the computed statistics, the pipeline still ends in a normalisation
  step built from \<^verbatim>\<open>None\<close> and \<^verbatim>\<open>None\<close>.
\<close>

theorem normalize_ignores_resolved_stats:
  "build_datasets demo_env (demo_cfg\<lparr> data_mean := None, data_std := None \<rparr>) True
     = Inl (NameError ''trainset'')
   \<and> resolve_meanstd demo_bound_env (demo_cfg\<lparr> data_mean := None, data_std := None \<rparr>) demo_base
     = Inr (Some [1 / 4, 1 / 4, 1 / 4], Some [1 / 8, 1 / 8, 1 / 8])
   \<and> map_sum id (transform_of \<circ> fst)
       (build_datasets demo_bound_env (demo_cfg\<lparr> data_mean := None, data_std := None \<rparr>) True)
     = Inr (Some (Compose [Resize (VInt 64) (VInt 64), ToRGB, ToTensor, Normalize None None]))
   \<and> parse_data_augmentations demo_transforms (demo_cfg\<lparr> data_mean := None, data_std := None \<rparr>) False
     = Inr (Compose [Resize (VInt 64) (VInt 64), ToRGB, ToTensor, Normalize None None],
            Compose [ToTensor, Normalize None None])"
  by code_simp

end
